theory Spec2Isabelle
  imports Complex_Main
begin

section \<open>Errors and the error monad\<close>

text \<open>
  The constructors of \<^verbatim>\<open>VolumeFactory.py\<close> are modelled as functions that return either
  an error or a result together with the updated object store. Errors raised by the spline
  kernel (the classes \<^verbatim>\<open>Surface\<close>, \<^verbatim>\<open>Volume\<close>, \<^verbatim>\<open>BSplineBasis\<close> and the module
  \<^verbatim>\<open>SurfaceFactory\<close>, none of which is part of the file) are tagged \<open>KernelError\<close>, so that
  an exception raised by the file itself can be told from one that only propagates.
  Floating point numbers are idealised as reals.
\<close>

type_synonym kernel_error = string

datatype error =
    ValueError string
  | IndexError
  | AttributeError
  | TypeError
  | LinAlgError
  | KernelError kernel_error
  | InvalidReference

definition ebind :: "error + 'a \<Rightarrow> ('a \<Rightarrow> error + 'b) \<Rightarrow> error + 'b" where
  "ebind m f = (case m of Inl e \<Rightarrow> Inl e | Inr x \<Rightarrow> f x)"

definition lift :: "kernel_error + 'a \<Rightarrow> error + 'a" where
  "lift m = (case m of Inl e \<Rightarrow> Inl (KernelError e) | Inr x \<Rightarrow> Inr x)"

fun mapM :: "('a \<Rightarrow> error + 'b) \<Rightarrow> 'a list \<Rightarrow> error + 'b list" where
  "mapM f [] = Inr []"
| "mapM f (x # xs) = ebind (f x) (\<lambda>y. ebind (mapM f xs) (\<lambda>ys. Inr (y # ys)))"

definition getitem :: "'a list \<Rightarrow> nat \<Rightarrow> error + 'a" where
  "getitem xs i = (if i < length xs then Inr (xs ! i) else Inl IndexError)"

section \<open>Data model\<close>

record basis =
  order :: nat
  knots :: "real list"
  periodic :: int

text \<open>A control point is a row of coordinates; a surface holds a lattice indexed
  \<open>[i][j][c]\<close>, a volume one indexed \<open>[i][j][k][c]\<close>.\<close>

type_synonym point = "real list"
type_synonym lattice2 = "point list list"
type_synonym lattice3 = "point list list list"

record surface =
  bases :: "basis list"
  controlpoints :: lattice2
  dimension :: nat
  rational :: bool

record volume =
  v_bases :: "basis list"
  v_controlpoints :: lattice3
  v_dimension :: nat
  v_rational :: bool

datatype geometry = GSurface surface | GVolume volume

text \<open>Surfaces are objects: a variable holds a reference into the store. \<^verbatim>\<open>clone()\<close>
  allocates a new object with the same contents; a mutating method replaces the contents
  of its receiver.\<close>

type_synonym addr = nat
type_synonym heap = "surface list"

definition deref :: "heap \<Rightarrow> addr \<Rightarrow> error + surface" where
  "deref H a = (if a < length H then Inr (H ! a) else Inl InvalidReference)"

definition clone :: "heap \<Rightarrow> addr \<Rightarrow> error + (addr \<times> heap)" where
  "clone H a = ebind (deref H a) (\<lambda>s. Inr (length H, H @ [s]))"

definition mutate :: "heap \<Rightarrow> addr \<Rightarrow> (surface \<Rightarrow> kernel_error + surface) \<Rightarrow> error + heap" where
  "mutate H a f = ebind (deref H a) (\<lambda>s. ebind (lift (f s)) (\<lambda>s'. Inr (H[a := s'])))"

section \<open>The spline kernel and the other collaborators\<close>

text \<open>
  The operations of the kernel are parameters of the model. Each field is named after the
  Python method or function it stands for. A method that changes its receiver takes the
  old contents and returns the new ones.
\<close>

record kernel =
  surface_set_dimension :: "nat \<Rightarrow> surface \<Rightarrow> kernel_error + surface"
  surface_force_rational :: "surface \<Rightarrow> kernel_error + surface"
  surface_len :: "surface \<Rightarrow> nat"
  surface_getitem :: "surface \<Rightarrow> nat \<Rightarrow> kernel_error + point"
  surface_iter :: "surface \<Rightarrow> point list"
  surface_rotate :: "real \<Rightarrow> surface \<Rightarrow> kernel_error + surface"
  surface_iadd :: "point \<Rightarrow> surface \<Rightarrow> kernel_error + surface"
  surface_isub :: "point \<Rightarrow> surface \<Rightarrow> kernel_error + surface"
  surface_center :: "surface \<Rightarrow> kernel_error + point"
  surface_make_splines_identical :: "surface \<Rightarrow> surface \<Rightarrow> kernel_error + (surface \<times> surface)"
  BSplineBasis :: "nat option \<Rightarrow> real list option \<Rightarrow> int option \<Rightarrow> kernel_error + basis"
  basis_imul :: "real \<Rightarrow> basis \<Rightarrow> kernel_error + basis"
  basis_greville :: "basis \<Rightarrow> real list"
  basis_num_functions :: "basis \<Rightarrow> nat"
  basis_call :: "basis \<Rightarrow> real list \<Rightarrow> kernel_error + real list list"
  Volume :: "basis option \<Rightarrow> basis option \<Rightarrow> basis option \<Rightarrow> point list option \<Rightarrow> bool
               \<Rightarrow> kernel_error + volume"
  volume_corners :: "volume \<Rightarrow> point list"
  volume_swap :: "nat \<Rightarrow> nat \<Rightarrow> volume \<Rightarrow> kernel_error + volume"
  volume_make_splines_identical :: "volume \<Rightarrow> volume \<Rightarrow> kernel_error + (volume \<times> volume)"
  SurfaceFactory_cylinder :: "real \<Rightarrow> real \<Rightarrow> kernel_error + surface"
  SurfaceFactory_edge_curves :: "surface list \<Rightarrow> kernel_error + geometry"
  linalg_inv :: "real list list \<Rightarrow> error + real list list"

section \<open>Array operations\<close>

function chunks :: "nat \<Rightarrow> 'a list \<Rightarrow> 'a list list" where
  "chunks k xs = (if k = 0 \<or> xs = [] then [] else take k xs # chunks k (drop k xs))"
  by pat_completeness auto
termination
  by (relation "measure (\<lambda>(k, xs). length xs)") auto

declare chunks.simps [simp del]

text \<open>\<^verbatim>\<open>np.reshape(a, (r, c))\<close> on the flattened entries of \<open>a\<close>, for \<open>c > 0\<close>.\<close>

definition np_reshape2 :: "nat \<Rightarrow> nat \<Rightarrow> real list \<Rightarrow> error + real list list" where
  "np_reshape2 r c flat =
     (if length flat = r * c then Inr (chunks c flat) else Inl (ValueError ''reshape''))"

text \<open>\<^verbatim>\<open>a.transpose(1, 0, 2)\<close> followed by flattening in row-major order.\<close>

definition flat_transposed :: "lattice2 \<Rightarrow> real list" where
  "flat_transposed a = concat (concat (transpose a))"

definition np_zeros2 :: "nat \<Rightarrow> nat \<Rightarrow> real list list" where
  "np_zeros2 r c = replicate r (replicate c 0)"

text \<open>\<^verbatim>\<open>cp[lo:lo+n, :] = block\<close> for a block of exactly \<open>n\<close> rows inside the array.\<close>

definition set_rows :: "real list list \<Rightarrow> nat \<Rightarrow> real list list \<Rightarrow> real list list" where
  "set_rows cp lo block = take lo cp @ block @ drop (lo + length block) cp"

text \<open>\<^verbatim>\<open>cp[lo:lo+n, c] *= w\<close>.\<close>

definition scale_col :: "nat \<Rightarrow> real \<Rightarrow> point \<Rightarrow> point" where
  "scale_col c w row = (if c < length row then row[c := row ! c * w] else row)"

definition scale_rows :: "real list list \<Rightarrow> nat \<Rightarrow> nat \<Rightarrow> nat \<Rightarrow> real \<Rightarrow> real list list" where
  "scale_rows cp lo n c w =
     take lo cp @ map (scale_col c w) (take n (drop lo cp)) @ drop (lo + n) cp"

section \<open>revolve\<close>

definition station_weight :: "nat \<Rightarrow> real" where
  "station_weight i = (if i mod 2 = 0 then 1.0 else 1.0 / sqrt 2)"

text \<open>The body of the loop \<^verbatim>\<open>for i in range(8)\<close>: the state is the array \<open>cp\<close> and
  the store, in which the cloned profile is rotated at the end of every round.\<close>

fun revolve_loop ::
  "kernel \<Rightarrow> addr \<Rightarrow> nat \<Rightarrow> nat list \<Rightarrow> real list list \<Rightarrow> heap \<Rightarrow> error + (real list list \<times> heap)"
where
  "revolve_loop E surf n [] cp H = Inr (cp, H)"
| "revolve_loop E surf n (i # is) cp H =
     ebind (deref H surf) (\<lambda>s.
     ebind (np_reshape2 n 4 (flat_transposed (controlpoints s))) (\<lambda>block.
     let cp1 = set_rows cp (i * n) block;
         cp2 = scale_rows cp1 (i * n) n 2 (station_weight i);
         cp3 = scale_rows cp2 (i * n) n 3 (station_weight i)
     in ebind (mutate H surf (surface_rotate E (pi / 4))) (\<lambda>H'.
        revolve_loop E surf n is cp3 H')))"

definition revolve_knots :: "real list" where
  "revolve_knots = [-1, 0, 0, 1, 1, 2, 2, 3, 3, 4, 4, 5]"

definition revolve :: "kernel \<Rightarrow> addr \<Rightarrow> real \<Rightarrow> heap \<Rightarrow> error + (volume \<times> heap)" where
  "revolve E surf0 theta H0 =
     ebind (clone H0 surf0) (\<lambda>(surf, H1).
     ebind (mutate H1 surf (surface_set_dimension E 3)) (\<lambda>H2.
     ebind (mutate H2 surf (surface_force_rational E)) (\<lambda>H3.
     ebind (deref H3 surf) (\<lambda>s.
     let n = surface_len E s;
         cp = np_zeros2 (8 * n) 4
     in ebind (lift (BSplineBasis E (Some 3) (Some revolve_knots) (Some 0))) (\<lambda>basis0.
        ebind (lift (basis_imul E (2 * pi / 4) basis0)) (\<lambda>basis.
        ebind (revolve_loop E surf n [0..<8] cp H3) (\<lambda>(cp', H4).
        ebind (deref H4 surf) (\<lambda>s'.
        ebind (getitem (bases s') 0) (\<lambda>b0.
        ebind (getitem (bases s') 1) (\<lambda>b1.
        ebind (lift (Volume E (Some b0) (Some b1) (Some basis) (Some cp') True)) (\<lambda>v.
        Inr (v, H4))))))))))))"

text \<open>The \<open>i\<close>-th station of the sweep is built from the promoted profile after \<open>i\<close>
  calls of \<^verbatim>\<open>rotate(pi / 4)\<close>.\<close>

fun rotations :: "kernel \<Rightarrow> nat \<Rightarrow> surface \<Rightarrow> kernel_error + surface" where
  "rotations E 0 s = Inr s"
| "rotations E (Suc j) s =
     (case surface_rotate E (pi / 4) s of Inl e \<Rightarrow> Inl e | Inr s' \<Rightarrow> rotations E j s')"

definition station_rows :: "nat \<Rightarrow> surface \<Rightarrow> real list list" where
  "station_rows i s =
     map (scale_col 3 (station_weight i) \<circ> scale_col 2 (station_weight i))
       (chunks 4 (flat_transposed (controlpoints s)))"

section \<open>cylinder and extrude\<close>

definition project_to_z_axis :: "point \<Rightarrow> error + point" where
  "project_to_z_axis controlpoint =
     ebind (getitem controlpoint 2) (\<lambda>z.
     ebind (getitem controlpoint 3) (\<lambda>w. Inr [0, 0, z, w]))"

definition cylinder :: "kernel \<Rightarrow> real \<Rightarrow> real \<Rightarrow> error + volume" where
  "cylinder E r h =
     ebind (lift (SurfaceFactory_cylinder E r h)) (\<lambda>shell.
     ebind (mapM project_to_z_axis (surface_iter E shell)) (\<lambda>cp1.
     let cp = cp1 @ surface_iter E shell
     in ebind (getitem (bases shell) 0) (\<lambda>b0.
        ebind (getitem (bases shell) 1) (\<lambda>b1.
        ebind (lift (BSplineBasis E None None None)) (\<lambda>b2.
        lift (Volume E (Some b0) (Some b1) (Some b2) (Some cp) True))))))"

text \<open>\<^verbatim>\<open>extrude\<close> works on the caller's object: there is no \<^verbatim>\<open>clone()\<close>.\<close>

definition extrude :: "kernel \<Rightarrow> addr \<Rightarrow> real \<Rightarrow> heap \<Rightarrow> error + (volume \<times> heap)" where
  "extrude E surf h H0 =
     ebind (mutate H0 surf (surface_set_dimension E 3)) (\<lambda>H1.
     ebind (deref H1 surf) (\<lambda>s1.
     let cp1 = surface_iter E s1
     in ebind (mutate H1 surf (surface_iadd E [0, 0, h])) (\<lambda>H2.
        ebind (deref H2 surf) (\<lambda>s2.
        let cp = cp1 @ surface_iter E s2
        in ebind (mutate H2 surf (surface_isub E [0, 0, h])) (\<lambda>H3.
           ebind (deref H3 surf) (\<lambda>s3.
           ebind (getitem (bases s3) 0) (\<lambda>b0.
           ebind (getitem (bases s3) 1) (\<lambda>b1.
           ebind (lift (BSplineBasis E (Some 2) None None)) (\<lambda>b2.
           ebind (lift (Volume E (Some b0) (Some b1) (Some b2) (Some cp) (rational s3))) (\<lambda>v.
           Inr (v, H3)))))))))))"

section \<open>edge_surfaces\<close>

text \<open>
  \<^verbatim>\<open>edge_surfaces(*surfaces)\<close> is written for any Python values: it asks its arguments
  for their length, indexes them and calls \<^verbatim>\<open>clone()\<close> on the items. The values that can
  occur are a surface, a sequence of values, a control point (what indexing a surface
  gives) and a number (what indexing a control point gives).
\<close>

datatype pyval = PSurface addr | PSeq "pyval list" | PArray point | PFloat real

definition py_len :: "kernel \<Rightarrow> heap \<Rightarrow> pyval \<Rightarrow> error + nat" where
  "py_len E H v =
     (case v of
        PSurface a \<Rightarrow> ebind (deref H a) (\<lambda>s. Inr (surface_len E s))
      | PSeq xs \<Rightarrow> Inr (length xs)
      | PArray p \<Rightarrow> Inr (length p)
      | PFloat x \<Rightarrow> Inl TypeError)"

definition py_getitem :: "kernel \<Rightarrow> heap \<Rightarrow> pyval \<Rightarrow> nat \<Rightarrow> error + pyval" where
  "py_getitem E H v i =
     (case v of
        PSurface a \<Rightarrow>
          ebind (deref H a) (\<lambda>s. ebind (lift (surface_getitem E s i)) (\<lambda>p. Inr (PArray p)))
      | PSeq xs \<Rightarrow> getitem xs i
      | PArray p \<Rightarrow> ebind (getitem p i) (\<lambda>x. Inr (PFloat x))
      | PFloat x \<Rightarrow> Inl TypeError)"

definition py_clone :: "heap \<Rightarrow> pyval \<Rightarrow> error + (addr \<times> heap)" where
  "py_clone H v = (case v of PSurface a \<Rightarrow> clone H a | _ \<Rightarrow> Inl AttributeError)"

text \<open>Shapes and broadcasting of arrays held as nested lists.\<close>

definition shape3 :: "'a list list list \<Rightarrow> nat \<times> nat \<times> nat" where
  "shape3 a =
     (length a,
      (case a of [] \<Rightarrow> 0 | r # _ \<Rightarrow> length r),
      (case a of [] \<Rightarrow> 0 | r # _ \<Rightarrow> (case r of [] \<Rightarrow> 0 | p # _ \<Rightarrow> length p)))"

definition bcast :: "nat \<Rightarrow> 'a list \<Rightarrow> error + 'a list" where
  "bcast n xs =
     (if length xs = n then Inr xs
      else if length xs = 1 then Inr (replicate n (xs ! 0))
      else Inl (ValueError ''could not broadcast''))"

definition broadcast3 :: "nat \<Rightarrow> nat \<Rightarrow> nat \<Rightarrow> 'a list list list \<Rightarrow> error + 'a list list list" where
  "broadcast3 n1 n2 d a =
     ebind (bcast n1 a) (mapM (\<lambda>row. ebind (bcast n2 row) (mapM (bcast d))))"

text \<open>\<^verbatim>\<open>a += b\<close> and \<^verbatim>\<open>a -= b\<close> on arrays: \<open>b\<close> is broadcast to the shape of \<open>a\<close>.\<close>

definition bzip :: "('a \<Rightarrow> 'a \<Rightarrow> error + 'a) \<Rightarrow> 'a list \<Rightarrow> 'a list \<Rightarrow> error + 'a list" where
  "bzip f a b = ebind (bcast (length a) b) (\<lambda>b'. mapM (\<lambda>(x, y). f x y) (zip a b'))"

definition np_inplace4 :: "(real \<Rightarrow> real \<Rightarrow> real) \<Rightarrow> lattice3 \<Rightarrow> lattice3 \<Rightarrow> error + lattice3" where
  "np_inplace4 f = bzip (bzip (bzip (bzip (\<lambda>x y. Inr (f x y)))))"

definition np_scale4 :: "real \<Rightarrow> lattice3 \<Rightarrow> lattice3" where
  "np_scale4 c a = map (map (map (map (\<lambda>x. c * x)))) a"

text \<open>An array of shape \<open>(n1, n2, d)\<close>.\<close>

definition has_shape3 :: "nat \<Rightarrow> nat \<Rightarrow> nat \<Rightarrow> 'a list list list \<Rightarrow> bool" where
  "has_shape3 n1 n2 d a \<longleftrightarrow>
     length a = n1 \<and> list_all (\<lambda>row. length row = n2 \<and> list_all (\<lambda>p. length p = d) row) a"

text \<open>An array of shape \<open>(n1, n2, n3, d)\<close>.\<close>

definition has_shape4 :: "nat \<Rightarrow> nat \<Rightarrow> nat \<Rightarrow> nat \<Rightarrow> 'a list list list list \<Rightarrow> bool" where
  "has_shape4 n1 n2 n3 d a \<longleftrightarrow> length a = n1 \<and> list_all (has_shape3 n2 n3 d) a"

text \<open>The branch \<^verbatim>\<open>len(surfaces) == 2\<close>: the ruled volume between two surfaces.\<close>

definition edge_surfaces_two :: "kernel \<Rightarrow> pyval \<Rightarrow> heap \<Rightarrow> error + (volume \<times> heap)" where
  "edge_surfaces_two E surfaces H0 =
     ebind (py_getitem E H0 surfaces 0) (\<lambda>x0.
     ebind (py_clone H0 x0) (\<lambda>(surf1, H1).
     ebind (py_getitem E H1 surfaces 1) (\<lambda>x1.
     ebind (py_clone H1 x1) (\<lambda>(surf2, H2).
     ebind (deref H2 surf1) (\<lambda>s1.
     ebind (deref H2 surf2) (\<lambda>s2.
     ebind (lift (surface_make_splines_identical E s1 s2)) (\<lambda>(s1', s2').
     let H3 = H2[surf1 := s1', surf2 := s2'];
         (n1, n2, d) = shape3 (controlpoints s1') in
     ebind (broadcast3 n1 n2 d (controlpoints s2')) (\<lambda>layer1.
     let cps = map2 (map2 (\<lambda>p q. [p, q])) (controlpoints s1') layer1 in
     ebind (lift (Volume E None None None None False)) (\<lambda>result.
     ebind (getitem (bases s1') 0) (\<lambda>b0.
     ebind (getitem (bases s1') 1) (\<lambda>b1.
     ebind (lift (BSplineBasis E (Some 2) None None)) (\<lambda>b2.
     Inr (result\<lparr>v_bases := [b0, b1, b2], v_dimension := dimension s1',
                  v_rational := rational s1', v_controlpoints := cps\<rparr>, H3)))))))))))))"

text \<open>The six calls of \<^verbatim>\<open>Volume.make_splines_identical\<close>, in the order of the source.\<close>

definition unify_four ::
  "kernel \<Rightarrow> volume \<Rightarrow> volume \<Rightarrow> volume \<Rightarrow> volume \<Rightarrow> error + (volume \<times> volume \<times> volume \<times> volume)"
where
  "unify_four E vol1 vol2 vol3 vol4 =
     ebind (lift (volume_make_splines_identical E vol1 vol2)) (\<lambda>(vol1, vol2).
     ebind (lift (volume_make_splines_identical E vol1 vol3)) (\<lambda>(vol1, vol3).
     ebind (lift (volume_make_splines_identical E vol1 vol4)) (\<lambda>(vol1, vol4).
     ebind (lift (volume_make_splines_identical E vol2 vol3)) (\<lambda>(vol2, vol3).
     ebind (lift (volume_make_splines_identical E vol2 vol4)) (\<lambda>(vol2, vol4).
     ebind (lift (volume_make_splines_identical E vol3 vol4)) (\<lambda>(vol3, vol4).
     Inr (vol1, vol2, vol3, vol4)))))))"

text \<open>The three ruled volumes and the corner volume, after the axis swaps.\<close>

definition coons_volumes ::
  "kernel \<Rightarrow> pyval \<Rightarrow> heap \<Rightarrow> error + ((volume \<times> volume \<times> volume \<times> volume) \<times> heap)"
where
  "coons_volumes E surfaces H0 =
     ebind (py_getitem E H0 surfaces 0) (\<lambda>umin.
     ebind (py_getitem E H0 surfaces 1) (\<lambda>umax.
     ebind (py_getitem E H0 surfaces 2) (\<lambda>vmin.
     ebind (py_getitem E H0 surfaces 3) (\<lambda>vmax.
     ebind (py_getitem E H0 surfaces 4) (\<lambda>wmin.
     ebind (py_getitem E H0 surfaces 5) (\<lambda>wmax.
     ebind (edge_surfaces_two E (PSeq [umin, umax]) H0) (\<lambda>(vol1, H1).
     ebind (edge_surfaces_two E (PSeq [vmin, vmax]) H1) (\<lambda>(vol2, H2).
     ebind (edge_surfaces_two E (PSeq [wmin, wmax]) H2) (\<lambda>(vol3, H3).
     ebind (lift (Volume E None None None (Some (volume_corners E vol1)) (v_rational vol1))) (\<lambda>vol4.
     ebind (lift (volume_swap E 0 2 vol1)) (\<lambda>vol1.
     ebind (lift (volume_swap E 1 2 vol1)) (\<lambda>vol1.
     ebind (lift (volume_swap E 1 2 vol2)) (\<lambda>vol2.
     ebind (lift (volume_swap E 1 2 vol4)) (\<lambda>vol4.
     Inr ((vol1, vol2, vol3, vol4), H3)))))))))))))))"

definition edge_surfaces :: "kernel \<Rightarrow> pyval list \<Rightarrow> heap \<Rightarrow> error + (volume \<times> heap)" where
  "edge_surfaces E args H0 =
     (let surfaces = (if length args = 1 then args ! 0 else PSeq args) in
      ebind (py_len E H0 surfaces) (\<lambda>n.
      if n = 2 then edge_surfaces_two E surfaces H0
      else if n = 6 then
        ebind (coons_volumes E surfaces H0) (\<lambda>((vol1, vol2, vol3, vol4), H3).
        ebind (unify_four E vol1 vol2 vol3 vol4) (\<lambda>(vol1, vol2, vol3, vol4).
        let result = vol1 in
        ebind (np_inplace4 (+) (v_controlpoints result) (v_controlpoints vol2)) (\<lambda>c1.
        ebind (np_inplace4 (+) c1 (v_controlpoints vol3)) (\<lambda>c2.
        ebind (np_inplace4 (-) c2 (np_scale4 2 (v_controlpoints vol4))) (\<lambda>c3.
        Inr (result\<lparr>v_controlpoints := c3\<rparr>, H3))))))
      else Inl (ValueError ''Requires two or six input surfaces'')))"

section \<open>loft\<close>

text \<open>\<^verbatim>\<open>[s.clone().set_dimension(3) for s in surfaces]\<close>\<close>

fun loft_clone :: "kernel \<Rightarrow> addr list \<Rightarrow> heap \<Rightarrow> error + (addr list \<times> heap)" where
  "loft_clone E [] H = Inr ([], H)"
| "loft_clone E (s # ss) H =
     ebind (clone H s) (\<lambda>(c, H1).
     ebind (mutate H1 c (surface_set_dimension E 3)) (\<lambda>H2.
     ebind (loft_clone E ss H2) (\<lambda>(cs, H3). Inr (c # cs, H3))))"

text \<open>\<^verbatim>\<open>a - b\<close> on one-dimensional arrays, and \<^verbatim>\<open>np.linalg.norm\<close>.\<close>

definition np_sub1 :: "point \<Rightarrow> point \<Rightarrow> error + point" where
  "np_sub1 a b =
     (if length a = length b then Inr (map2 (-) a b)
      else if length b = 1 then Inr (map (\<lambda>x. x - b ! 0) a)
      else if length a = 1 then Inr (map (\<lambda>y. a ! 0 - y) b)
      else Inl (ValueError ''operands could not be broadcast together''))"

definition np_norm :: "point \<Rightarrow> real" where
  "np_norm v = sqrt (sum_list (map (\<lambda>x. x * x) v))"

text \<open>The loop over \<^verbatim>\<open>zip(x[1:], x[:-1])\<close> that appends to \<open>dist\<close>.\<close>

fun loft_dist_loop :: "(point \<times> point) list \<Rightarrow> real list \<Rightarrow> error + real list" where
  "loft_dist_loop [] dists = Inr dists"
| "loft_dist_loop ((x1, x0) # ps) dists =
     ebind (np_sub1 (take 3 x1) (take 3 x0)) (\<lambda>delta.
     loft_dist_loop ps (dists @ [last dists + np_norm delta]))"

definition loft_dist :: "point list \<Rightarrow> error + real list" where
  "loft_dist x = loft_dist_loop (zip (tl x) (butlast x)) [0]"

text \<open>\<^verbatim>\<open>[dist[0]]*4 + dist[2:-2] + [dist[-1]]*4\<close>, for a non-empty \<open>dist\<close>.\<close>

definition loft_knot :: "real list \<Rightarrow> real list" where
  "loft_knot dists =
     replicate 4 (dists ! 0) @ drop 2 (take (length dists - 2) dists) @ replicate 4 (last dists)"

text \<open>The branches \<^verbatim>\<open>len(surfaces) == 3\<close> and \<^verbatim>\<open>else\<close>: the basis and the
  interpolation parameters of the new direction.\<close>

definition loft_parametrization :: "kernel \<Rightarrow> addr list \<Rightarrow> heap \<Rightarrow> error + (basis \<times> real list)" where
  "loft_parametrization E surfaces H =
     (if length surfaces = 3 then
        ebind (lift (BSplineBasis E (Some 3) None None)) (\<lambda>basis3.
        Inr (basis3, basis_greville E basis3))
      else
        ebind (mapM (\<lambda>a. ebind (deref H a) (\<lambda>s. lift (surface_center E s))) surfaces) (\<lambda>x.
        ebind (loft_dist x) (\<lambda>dists.
        ebind (lift (BSplineBasis E (Some 4) (Some (loft_knot dists)) None)) (\<lambda>basis3.
        Inr (basis3, dists)))))"

text \<open>The double loop of \<^verbatim>\<open>Surface.make_splines_identical(surfaces[i], surfaces[j])\<close>.\<close>

definition index_pairs :: "nat \<Rightarrow> (nat \<times> nat) list" where
  "index_pairs n = concat (map (\<lambda>i. map (\<lambda>j. (i, j)) [i + 1..<n]) [0..<n])"

fun unify_pairs :: "kernel \<Rightarrow> addr list \<Rightarrow> (nat \<times> nat) list \<Rightarrow> heap \<Rightarrow> error + heap" where
  "unify_pairs E surfaces [] H = Inr H"
| "unify_pairs E surfaces ((i, j) # ps) H =
     ebind (getitem surfaces i) (\<lambda>a.
     ebind (getitem surfaces j) (\<lambda>b.
     ebind (deref H a) (\<lambda>sa.
     ebind (deref H b) (\<lambda>sb.
     ebind (lift (surface_make_splines_identical E sa sb)) (\<lambda>(sa', sb').
     unify_pairs E surfaces ps (H[a := sa', b := sb']))))))"

text \<open>\<^verbatim>\<open>np.tensordot(A, B, axes=(1,1))\<close> for a matrix and a three-dimensional array, and
  \<^verbatim>\<open>np.tensordot(A, B, axes=(1,2))\<close> for a matrix and a four-dimensional array.\<close>

definition cols :: "'a list list \<Rightarrow> nat" where
  "cols M = (case M of [] \<Rightarrow> 0 | r # _ \<Rightarrow> length r)"

definition tensordot_1_1 :: "real list list \<Rightarrow> lattice2 \<Rightarrow> error + lattice2" where
  "tensordot_1_1 A B =
     (let (b0, b1, b2) = shape3 B in
      if cols A \<noteq> b1 then Inl (ValueError ''shape-mismatch for sum'')
      else Inr (map (\<lambda>row. map (\<lambda>Bi.
                  map (\<lambda>d. sum_list (map2 (\<lambda>a p. a * p ! d) row Bi)) [0..<b2]) B) A))"

definition tensordot_1_2 :: "real list list \<Rightarrow> lattice3 \<Rightarrow> error + lattice3" where
  "tensordot_1_2 A B =
     (let b2 = (case B of [] \<Rightarrow> 0 | Bp # _ \<Rightarrow> cols Bp);
          b3 = (case B of [] \<Rightarrow> 0 | Bp # _ \<Rightarrow> (case Bp of [] \<Rightarrow> 0 | Bpq # _ \<Rightarrow> cols Bpq))
      in if cols A \<noteq> b2 then Inl (ValueError ''shape-mismatch for sum'')
         else Inr (map (\<lambda>row. map (\<lambda>Bp. map (\<lambda>Bpq.
                     map (\<lambda>d. sum_list (map2 (\<lambda>a p. a * p ! d) row Bpq)) [0..<b3]) Bp) B) A))"

text \<open>\<^verbatim>\<open>cp.transpose((2, 1, 0, 3))\<close>, flattened in row-major order.\<close>

definition flat_transposed4 :: "lattice3 \<Rightarrow> real list" where
  "flat_transposed4 cp =
     (let (a, b, c) = shape3 cp in
      concat (concat (map (\<lambda>r. concat (map (\<lambda>q. map (\<lambda>p. cp ! p ! q ! r) [0..<a]) [0..<b])) [0..<c])))"

text \<open>The part of \<^verbatim>\<open>loft\<close> after the choice of the basis: unification, collocation
  matrices, sampling and the three one-dimensional solves.\<close>

definition loft_solve ::
  "kernel \<Rightarrow> addr list \<Rightarrow> basis \<Rightarrow> real list \<Rightarrow> heap \<Rightarrow> error + (volume \<times> heap)"
where
  "loft_solve E surfaces basis3 dists H0 =
     (let n = length surfaces in
      ebind (unify_pairs E surfaces (index_pairs n) H0) (\<lambda>H.
      ebind (getitem surfaces 0) (\<lambda>a0.
      ebind (deref H a0) (\<lambda>s0.
      ebind (getitem (bases s0) 0) (\<lambda>basis1.
      ebind (getitem (bases s0) 1) (\<lambda>basis2.
      let m1 = basis_num_functions E basis1;
          m2 = basis_num_functions E basis2 in
      ebind (lift (surface_getitem E s0 0)) (\<lambda>p0.
      let dim = length p0;
          u = basis_greville E basis1;
          v = basis_greville E basis2;
          w = dists in
      ebind (lift (basis_call E basis1 u)) (\<lambda>Nu.
      ebind (lift (basis_call E basis2 v)) (\<lambda>Nv.
      ebind (lift (basis_call E basis3 w)) (\<lambda>Nw.
      ebind (linalg_inv E Nu) (\<lambda>Nu_inv.
      ebind (linalg_inv E Nv) (\<lambda>Nv_inv.
      ebind (linalg_inv E Nw) (\<lambda>Nw_inv.
      ebind (mapM (\<lambda>a. ebind (deref H a) (\<lambda>s.
                        ebind (tensordot_1_1 Nv (controlpoints s)) (\<lambda>tmp.
                        ebind (tensordot_1_1 Nu tmp) (broadcast3 m1 m2 dim)))) surfaces) (\<lambda>samples.
      let x = map (\<lambda>p. map (\<lambda>q. map (\<lambda>X. X ! p ! q) samples) [0..<m2]) [0..<m1] in
      ebind (tensordot_1_2 Nw_inv x) (\<lambda>cp.
      ebind (tensordot_1_2 Nv_inv cp) (\<lambda>cp.
      ebind (tensordot_1_2 Nu_inv cp) (\<lambda>cp.
      ebind (np_reshape2 (m1 * m2 * n) dim (flat_transposed4 cp)) (\<lambda>cp.
      ebind (lift (Volume E (Some basis1) (Some basis2) (Some basis3) (Some cp) (rational s0))) (\<lambda>vol.
      Inr (vol, H))))))))))))))))))))"

text \<open>With two surfaces \<^verbatim>\<open>loft\<close> returns what \<^verbatim>\<open>SurfaceFactory.edge_curves\<close> returns,
  so its result is a geometry of either kind.\<close>

definition loft :: "kernel \<Rightarrow> addr list \<Rightarrow> heap \<Rightarrow> error + (geometry \<times> heap)" where
  "loft E surfaces0 H0 =
     ebind (loft_clone E surfaces0 H0) (\<lambda>(surfaces, H1).
     if length surfaces = 2 then
       ebind (mapM (deref H1) surfaces) (\<lambda>ss.
       ebind (lift (SurfaceFactory_edge_curves E ss)) (\<lambda>g. Inr (g, H1)))
     else
       ebind (loft_parametrization E surfaces H1) (\<lambda>(basis3, dists).
       ebind (loft_solve E surfaces basis3 dists H1) (\<lambda>(vol, H2). Inr (GVolume vol, H2))))"

section \<open>An instance of the collaborators\<close>

text \<open>
  The theorems below hold for every kernel. To run the model on concrete surfaces, the
  following instance implements the collaborators for what the examples need. Where it
  does not implement an operation in general (refinement of two different spline spaces,
  evaluation of a basis other than the two-point linear one, inversion of a matrix larger
  than two by two) it reports a kernel error; no example relies on those cases.
\<close>

definition ref_point_set_dimension :: "bool \<Rightarrow> nat \<Rightarrow> point \<Rightarrow> point" where
  "ref_point_set_dimension rat n p =
     (if rat then take n (butlast p @ replicate n 0) @ [last p]
      else take n (p @ replicate n 0))"

definition ref_set_dimension :: "nat \<Rightarrow> surface \<Rightarrow> kernel_error + surface" where
  "ref_set_dimension n s =
     Inr (s\<lparr>controlpoints := map (map (ref_point_set_dimension (rational s) n)) (controlpoints s),
            dimension := n\<rparr>)"

definition ref_force_rational :: "surface \<Rightarrow> kernel_error + surface" where
  "ref_force_rational s =
     Inr (if rational s then s
          else s\<lparr>controlpoints := map (map (\<lambda>p. p @ [1])) (controlpoints s), rational := True\<rparr>)"

definition ref_iter :: "surface \<Rightarrow> point list" where
  "ref_iter s = concat (transpose (controlpoints s))"

definition ref_len :: "surface \<Rightarrow> nat" where
  "ref_len s = length (concat (controlpoints s))"

definition ref_getitem :: "surface \<Rightarrow> nat \<Rightarrow> kernel_error + point" where
  "ref_getitem s i =
     (if i < length (ref_iter s) then Inr (ref_iter s ! i) else Inl ''index out of range'')"

definition ref_rotate :: "real \<Rightarrow> surface \<Rightarrow> kernel_error + surface" where
  "ref_rotate t s =
     Inr (s\<lparr>controlpoints :=
            map (map (\<lambda>p. case p of
                            x # y # r \<Rightarrow> (x * cos t - y * sin t) # (x * sin t + y * cos t) # r
                          | _ \<Rightarrow> p)) (controlpoints s)\<rparr>)"

definition ref_translate :: "point \<Rightarrow> surface \<Rightarrow> surface" where
  "ref_translate v s =
     s\<lparr>controlpoints :=
         map (map (\<lambda>p. let w = (if rational s then last p else 1)
                       in map (\<lambda>i. if i < dimension s \<and> i < length v then p ! i + v ! i * w
                                    else p ! i) [0..<length p])) (controlpoints s)\<rparr>"

definition ref_center :: "surface \<Rightarrow> kernel_error + point" where
  "ref_center s =
     (let pts = ref_iter s
      in Inr (map (\<lambda>c. sum_list (map (\<lambda>p. p ! c) pts) / real (length pts)) [0..<dimension s]))"

definition ref_surface_identical :: "surface \<Rightarrow> surface \<Rightarrow> kernel_error + (surface \<times> surface)" where
  "ref_surface_identical s1 s2 =
     (if bases s1 = bases s2 \<and> shape3 (controlpoints s1) = shape3 (controlpoints s2)
      then Inr (s1, s2) else Inl ''refinement is not implemented'')"

definition ref_BSplineBasis :: "nat option \<Rightarrow> real list option \<Rightarrow> int option \<Rightarrow> kernel_error + basis" where
  "ref_BSplineBasis o_opt k_opt p_opt =
     (let ord = (case o_opt of None \<Rightarrow> 2 | Some n \<Rightarrow> n);
          ks = (case k_opt of None \<Rightarrow> replicate ord 0 @ replicate ord 1 | Some k \<Rightarrow> k);
          per = (case p_opt of None \<Rightarrow> - 1 | Some q \<Rightarrow> q)
      in if length ks < ord then Inl ''knot vector has too few elements''
         else if \<not> sorted ks then Inl ''knot vector needs to be non-decreasing''
         else Inr \<lparr>order = ord, knots = ks, periodic = per\<rparr>)"

definition linear_basis :: basis where
  "linear_basis = \<lparr>order = 2, knots = [0, 0, 1, 1], periodic = - 1\<rparr>"

definition ref_basis_imul :: "real \<Rightarrow> basis \<Rightarrow> kernel_error + basis" where
  "ref_basis_imul a b = Inr (b\<lparr>knots := map (\<lambda>t. t * a) (knots b)\<rparr>)"

definition ref_num_functions :: "basis \<Rightarrow> nat" where
  "ref_num_functions b = length (knots b) - order b - nat (periodic b + 1)"

definition ref_greville :: "basis \<Rightarrow> real list" where
  "ref_greville b =
     map (\<lambda>i. sum_list (take (order b - 1) (drop (i + 1) (knots b))) / real (order b - 1))
       [0..<ref_num_functions b]"

definition ref_basis_call :: "basis \<Rightarrow> real list \<Rightarrow> kernel_error + real list list" where
  "ref_basis_call b ts =
     (if b = linear_basis then Inr (map (\<lambda>t. [1 - t, t]) ts)
      else Inl ''evaluation is not implemented'')"

definition ref_linalg_inv :: "real list list \<Rightarrow> error + real list list" where
  "ref_linalg_inv M =
     (case M of
        [[a]] \<Rightarrow> if a = 0 then Inl LinAlgError else Inr [[1 / a]]
      | [[a, b], [c, d]] \<Rightarrow>
          if a * d - b * c = 0 then Inl LinAlgError
          else Inr [[d / (a * d - b * c), - b / (a * d - b * c)],
                    [- c / (a * d - b * c), a / (a * d - b * c)]]
      | _ \<Rightarrow> if list_all (\<lambda>r. length r = length M) M
             then Inl (KernelError ''inversion is not implemented'') else Inl LinAlgError)"

definition unit_cube_corners :: "point list" where
  "unit_cube_corners =
     [[0, 0, 0], [1, 0, 0], [0, 1, 0], [1, 1, 0], [0, 0, 1], [1, 0, 1], [0, 1, 1], [1, 1, 1]]"

definition ref_Volume ::
  "basis option \<Rightarrow> basis option \<Rightarrow> basis option \<Rightarrow> point list option \<Rightarrow> bool \<Rightarrow> kernel_error + volume"
where
  "ref_Volume b1_opt b2_opt b3_opt cp_opt rat =
     (let b1 = (case b1_opt of None \<Rightarrow> linear_basis | Some b \<Rightarrow> b);
          b2 = (case b2_opt of None \<Rightarrow> linear_basis | Some b \<Rightarrow> b);
          b3 = (case b3_opt of None \<Rightarrow> linear_basis | Some b \<Rightarrow> b);
          cp = (case cp_opt of None \<Rightarrow> unit_cube_corners | Some c \<Rightarrow> c);
          n1 = ref_num_functions b1; n2 = ref_num_functions b2; n3 = ref_num_functions b3
      in if length cp \<noteq> n1 * n2 * n3 then Inl ''wrong number of control points''
         else Inr \<lparr>v_bases = [b1, b2, b3],
                   v_controlpoints =
                     map (\<lambda>i. map (\<lambda>j. map (\<lambda>k. cp ! (i + n1 * (j + n2 * k))) [0..<n3]) [0..<n2]) [0..<n1],
                   v_dimension = (case cp of [] \<Rightarrow> 0 | p # _ \<Rightarrow> length p) - (if rat then 1 else 0),
                   v_rational = rat\<rparr>)"

definition ref_corners :: "volume \<Rightarrow> point list" where
  "ref_corners v =
     (let c = v_controlpoints v; (n1, n2, n3) = shape3 c
      in concat (map (\<lambda>i. concat (map (\<lambda>j. map (\<lambda>k. c ! i ! j ! k) [0, n3 - 1]) [0, n2 - 1]))
           [0, n1 - 1]))"

definition swap_entries :: "nat \<Rightarrow> nat \<Rightarrow> 'a list \<Rightarrow> 'a list" where
  "swap_entries a b xs = xs[a := xs ! b, b := xs ! a]"

definition ref_swap :: "nat \<Rightarrow> nat \<Rightarrow> volume \<Rightarrow> kernel_error + volume" where
  "ref_swap a b v =
     (if a < 3 \<and> b < 3 \<and> length (v_bases v) = 3 then
        (let c = v_controlpoints v; (n1, n2, n3) = shape3 c; m = swap_entries a b [n1, n2, n3]
         in Inr (v\<lparr>v_bases := swap_entries a b (v_bases v),
                   v_controlpoints :=
                     map (\<lambda>i. map (\<lambda>j. map (\<lambda>k.
                        let q = swap_entries a b [i, j, k] in c ! (q ! 0) ! (q ! 1) ! (q ! 2))
                        [0..<m ! 2]) [0..<m ! 1]) [0..<m ! 0]\<rparr>))
      else Inl ''no such direction'')"

definition ref_volume_identical :: "volume \<Rightarrow> volume \<Rightarrow> kernel_error + (volume \<times> volume)" where
  "ref_volume_identical v1 v2 =
     (if v_bases v1 = v_bases v2 \<and> shape3 (v_controlpoints v1) = shape3 (v_controlpoints v2)
      then Inr (v1, v2) else Inl ''refinement is not implemented'')"

text \<open>The cylindrical shell of radius \<open>r\<close> and height \<open>h\<close>: the eight-point rational
  circle, extruded along the axis.\<close>

definition circle_points :: "(real \<times> real \<times> real) list" where
  "circle_points =
     (let w = 1 / sqrt 2
      in [(1, 0, 1), (w, w, w), (0, 1, 1), (- w, w, w), (- 1, 0, 1), (- w, - w, w), (0, - 1, 1), (w, - w, w)])"

definition ref_cylinder_shell :: "real \<Rightarrow> real \<Rightarrow> kernel_error + surface" where
  "ref_cylinder_shell r h =
     Inr \<lparr>bases = [\<lparr>order = 3, knots = map (\<lambda>t. t * (2 * pi / 4)) revolve_knots, periodic = 0\<rparr>,
                   linear_basis],
          controlpoints = map (\<lambda>(x, y, w). [[r * x, r * y, 0, w], [r * x, r * y, h * w, w]]) circle_points,
          dimension = 3, rational = True\<rparr>"

definition ref_kernel :: kernel where
  "ref_kernel =
     \<lparr>surface_set_dimension = ref_set_dimension,
      surface_force_rational = ref_force_rational,
      surface_len = ref_len,
      surface_getitem = ref_getitem,
      surface_iter = ref_iter,
      surface_rotate = ref_rotate,
      surface_iadd = (\<lambda>v s. Inr (ref_translate v s)),
      surface_isub = (\<lambda>v s. Inr (ref_translate (map uminus v) s)),
      surface_center = ref_center,
      surface_make_splines_identical = ref_surface_identical,
      BSplineBasis = ref_BSplineBasis,
      basis_imul = ref_basis_imul,
      basis_greville = ref_greville,
      basis_num_functions = ref_num_functions,
      basis_call = ref_basis_call,
      Volume = ref_Volume,
      volume_corners = ref_corners,
      volume_swap = ref_swap,
      volume_make_splines_identical = ref_volume_identical,
      SurfaceFactory_cylinder = ref_cylinder_shell,
      SurfaceFactory_edge_curves = (\<lambda>curves. Inl ''edge_curves: not a curve''),
      linalg_inv = ref_linalg_inv\<rparr>"

text \<open>A bilinear patch: the rectangle spanned by four corner points.\<close>

definition patch :: "point \<Rightarrow> point \<Rightarrow> point \<Rightarrow> point \<Rightarrow> surface" where
  "patch p00 p10 p01 p11 =
     \<lparr>bases = [linear_basis, linear_basis], controlpoints = [[p00, p01], [p10, p11]],
      dimension = length p00, rational = False\<rparr>"

text \<open>Example inputs: a rectangle in the plane \<open>y = 0\<close>, standing off the axis, as the
  profile of a revolution.\<close>

definition profile_heap :: heap where
  "profile_heap = [patch [1, 0, 0] [2, 0, 0] [1, 0, 1] [2, 0, 1]]"

text \<open>The six faces of the unit cube, in the order \<open>umin\<close>, \<open>umax\<close>, \<open>vmin\<close>, \<open>vmax\<close>,
  \<open>wmin\<close>, \<open>wmax\<close>; opposing faces are parametrized alike.\<close>

definition cube_faces :: heap where
  "cube_faces =
     [patch [0, 0, 0] [0, 1, 0] [0, 0, 1] [0, 1, 1],
      patch [1, 0, 0] [1, 1, 0] [1, 0, 1] [1, 1, 1],
      patch [0, 0, 0] [1, 0, 0] [0, 0, 1] [1, 0, 1],
      patch [0, 1, 0] [1, 1, 0] [0, 1, 1] [1, 1, 1],
      patch [0, 0, 0] [1, 0, 0] [0, 1, 0] [1, 1, 0],
      patch [0, 0, 1] [1, 0, 1] [0, 1, 1] [1, 1, 1]]"

text \<open>The profile of \<open>profile_heap\<close> after \<^verbatim>\<open>set_dimension(3)\<close> and
  \<^verbatim>\<open>force_rational()\<close>.\<close>

definition promoted_profile :: surface where
  "promoted_profile =
     \<lparr>bases = [linear_basis, linear_basis],
      controlpoints = [[[1, 0, 0, 1], [1, 0, 1, 1]], [[2, 0, 0, 1], [2, 0, 1, 1]]],
      dimension = 3, rational = True\<rparr>"

definition unit_cube_lattice :: lattice3 where
  "unit_cube_lattice =
     [[[[0, 0, 0], [0, 0, 1]], [[0, 1, 0], [0, 1, 1]]],
      [[[1, 0, 0], [1, 0, 1]], [[1, 1, 0], [1, 1, 1]]]]"

definition unit_cube :: volume where
  "unit_cube = \<lparr>v_bases = [linear_basis, linear_basis, linear_basis],
                 v_controlpoints = unit_cube_lattice, v_dimension = 3, v_rational = False\<rparr>"

definition cube_heap1 :: heap where
  "cube_heap1 = cube_faces @ [cube_faces ! 0, cube_faces ! 1]"

definition cube_heap2 :: heap where
  "cube_heap2 = cube_heap1 @ [cube_heap1 ! 2, cube_heap1 ! 3]"

definition cube_heap3 :: heap where
  "cube_heap3 = cube_heap2 @ [cube_heap2 ! 4, cube_heap2 ! 5]"

definition ruled_u :: volume where
  "ruled_u = \<lparr>v_bases = [linear_basis, linear_basis, linear_basis],
           v_controlpoints = [[[[0, 0, 0], [1, 0, 0]], [[0, 0, 1], [1, 0, 1]]],
                              [[[0, 1, 0], [1, 1, 0]], [[0, 1, 1], [1, 1, 1]]]],
           v_dimension = 3, v_rational = False\<rparr>"

definition ruled_v :: volume where
  "ruled_v = \<lparr>v_bases = [linear_basis, linear_basis, linear_basis],
           v_controlpoints = [[[[0, 0, 0], [0, 1, 0]], [[0, 0, 1], [0, 1, 1]]],
                              [[[1, 0, 0], [1, 1, 0]], [[1, 0, 1], [1, 1, 1]]]],
           v_dimension = 3, v_rational = False\<rparr>"

text \<open>A planar unit square, with two coordinates per control point.\<close>

definition square_heap :: heap where
  "square_heap = [patch [0, 0] [1, 0] [0, 1] [1, 1]]"


text \<open>A rational profile: the rectangle of \<open>profile_heap\<close> in homogeneous coordinates,
  every control point with the weight \<open>2\<close>.\<close>

definition weighted_heap :: heap where
  "weighted_heap =
     [\<lparr>bases = [linear_basis, linear_basis],
       controlpoints = [[[1, 0, 0, 2], [1, 0, 1, 2]], [[2, 0, 0, 2], [2, 0, 1, 2]]],
       dimension = 3, rational = True\<rparr>]"

text \<open>The trilinear volume on a lattice of two by two by two control points, and the
  lattice of the box with the corners \<open>(0, 0, 0)\<close> and \<open>(a, b, c)\<close>.\<close>

definition trilinear :: "lattice3 \<Rightarrow> volume" where
  "trilinear L = \<lparr>v_bases = [linear_basis, linear_basis, linear_basis],
                  v_controlpoints = L, v_dimension = 3, v_rational = False\<rparr>"

definition box_lattice :: "real \<Rightarrow> real \<Rightarrow> real \<Rightarrow> lattice3" where
  "box_lattice a b c =
     [[[[0, 0, 0], [0, 0, c]], [[0, b, 0], [0, b, c]]],
      [[[a, 0, 0], [a, 0, c]], [[a, b, 0], [a, b, c]]]]"

text \<open>Six unit squares, in the order \<open>umin\<close>, \<open>umax\<close>, \<open>vmin\<close>, \<open>vmax\<close>, \<open>wmin\<close>, \<open>wmax\<close>,
  in the planes \<open>x = 0\<close>, \<open>x = 2\<close>, \<open>y = 0\<close>, \<open>y = 3\<close>, \<open>z = 0\<close>, \<open>z = 5\<close>; and the store
  after each of the three two-surface constructions, which clone their two surfaces.\<close>

definition skew_faces :: heap where
  "skew_faces =
     [patch [0, 0, 0] [0, 1, 0] [0, 0, 1] [0, 1, 1],
      patch [2, 0, 0] [2, 1, 0] [2, 0, 1] [2, 1, 1],
      patch [0, 0, 0] [1, 0, 0] [0, 0, 1] [1, 0, 1],
      patch [0, 3, 0] [1, 3, 0] [0, 3, 1] [1, 3, 1],
      patch [0, 0, 0] [1, 0, 0] [0, 1, 0] [1, 1, 0],
      patch [0, 0, 5] [1, 0, 5] [0, 1, 5] [1, 1, 5]]"

definition skew_heap1 :: heap where
  "skew_heap1 = skew_faces @ [skew_faces ! 0, skew_faces ! 1]"

definition skew_heap2 :: heap where
  "skew_heap2 = skew_heap1 @ [skew_heap1 ! 2, skew_heap1 ! 3]"

definition skew_heap3 :: heap where
  "skew_heap3 = skew_heap2 @ [skew_heap2 ! 4, skew_heap2 ! 5]"

section \<open>Properties\<close>

subsection \<open>Basic facts\<close>

lemma ebind_Inr_iff [simp]: "ebind m f = Inr y \<longleftrightarrow> (\<exists>x. m = Inr x \<and> f x = Inr y)"
  by (cases m) (simp_all add: ebind_def)

lemma ebind_Inr [simp]: "ebind (Inr x) f = f x"
  by (simp add: ebind_def)

lemma ebind_Inl [simp]: "ebind (Inl e) f = Inl e"
  by (simp add: ebind_def)

lemma lift_Inr_iff [simp]: "lift m = Inr y \<longleftrightarrow> m = Inr y"
  by (cases m) (simp_all add: lift_def)

lemma lift_Inr [simp]: "lift (Inr x) = Inr x"
  by (simp add: lift_def)

lemma lift_Inl [simp]: "lift (Inl e) = Inl (KernelError e)"
  by (simp add: lift_def)

lemma deref_Inr_iff: "deref H a = Inr s \<longleftrightarrow> a < length H \<and> s = H ! a"
  by (auto simp: deref_def)

lemma mutate_Inr_iff:
  "mutate H a f = Inr H' \<longleftrightarrow> a < length H \<and> (\<exists>s'. f (H ! a) = Inr s' \<and> H' = H[a := s'])"
  by (auto simp: mutate_def deref_Inr_iff)

lemma clone_Inr_iff:
  "clone H a = Inr (c, H') \<longleftrightarrow> a < length H \<and> c = length H \<and> H' = H @ [H ! a]"
  by (auto simp: clone_def deref_Inr_iff)

lemma getitem_Inr_iff: "getitem xs i = Inr x \<longleftrightarrow> i < length xs \<and> x = xs ! i"
  by (auto simp: getitem_def)

lemma chunks_Nil [simp]: "chunks k [] = []"
  by (simp add: chunks.simps)

lemma chunks_exact:
  "0 < k \<Longrightarrow> length xs = r * k \<Longrightarrow> length (chunks k xs) = r \<and> (\<forall>c \<in> set (chunks k xs). length c = k)"
proof (induction r arbitrary: xs)
  case 0
  then show ?case by simp
next
  case (Suc r)
  then have ne: "xs \<noteq> []" by auto
  have len: "length (drop k xs) = r * k" using Suc.prems by simp
  have eq: "chunks k xs = take k xs # chunks k (drop k xs)"
    using ne Suc.prems(1) by (subst chunks.simps) simp
  have "length (take k xs) = k" using Suc.prems by simp
  with Suc.IH [OF Suc.prems(1) len] eq show ?case by simp
qed

lemma np_reshape2_Inr:
  "np_reshape2 r 4 flat = Inr block \<Longrightarrow> length block = r \<and> length flat = r * 4 \<and> block = chunks 4 flat"
  using chunks_exact [of 4 flat r] by (auto simp: np_reshape2_def split: if_splits)

lemma block_update:
  assumes "length block = n" "lo + n \<le> length cp"
  shows "scale_rows (scale_rows (set_rows cp lo block) lo n 2 w) lo n 3 w
         = take lo cp @ map (scale_col 3 w \<circ> scale_col 2 w) block @ drop (lo + n) cp"
  using assms by (simp add: scale_rows_def set_rows_def)

lemma revolve_loop_layout:
  assumes "revolve_loop E surf n [k..<m] cp H = Inr (cp', H')"
      and "surf < length H" and "m * n \<le> length cp"
  shows "length cp' = length cp \<and> length H' = length H
       \<and> (\<forall>a<length H. a \<noteq> surf \<longrightarrow> H' ! a = H ! a)
       \<and> take (k * n) cp' = take (k * n) cp
       \<and> rotations E (m - k) (H ! surf) = Inr (H' ! surf)
       \<and> (\<forall>i. k \<le> i \<and> i < m \<longrightarrow>
            (\<exists>si. rotations E (i - k) (H ! surf) = Inr si
                 \<and> length (flat_transposed (controlpoints si)) = n * 4
                 \<and> take n (drop (i * n) cp') = station_rows i si))"
  using assms
proof (induction "m - k" arbitrary: k cp H)
  case 0
  then show ?case by auto
next
  case (Suc d)
  then have km: "k < m" by simp
  then have upt: "[k..<m] = k # [Suc k..<m]" by (simp add: upt_conv_Cons)
  let ?s = "H ! surf"
  let ?w = "station_weight k"
  from Suc.prems(1) obtain block s' where
    blk: "np_reshape2 n 4 (flat_transposed (controlpoints ?s)) = Inr block" and
    rot: "surface_rotate E (pi / 4) ?s = Inr s'" and
    rec: "revolve_loop E surf n [Suc k..<m]
            (scale_rows (scale_rows (set_rows cp (k * n) block) (k * n) n 2 ?w) (k * n) n 3 ?w)
            (H[surf := s']) = Inr (cp', H')"
    unfolding upt by (auto simp: deref_Inr_iff mutate_Inr_iff Let_def)
  from np_reshape2_Inr [OF blk] have bl: "length block = n" and
    fl: "length (flat_transposed (controlpoints ?s)) = n * 4" and
    bc: "block = chunks 4 (flat_transposed (controlpoints ?s))" by blast+
  have "Suc k * n \<le> m * n" using km by (intro mult_le_mono1) simp
  then have fit: "k * n + n \<le> length cp" using Suc.prems(3) by simp
  define cp3 where "cp3 = take (k * n) cp @ map (scale_col 3 ?w \<circ> scale_col 2 ?w) block @ drop (k * n + n) cp"
  have cp3: "scale_rows (scale_rows (set_rows cp (k * n) block) (k * n) n 2 ?w) (k * n) n 3 ?w = cp3"
    unfolding cp3_def by (rule block_update [OF bl fit])
  have len3: "length cp3 = length cp" using fit bl by (simp add: cp3_def)
  have d: "d = m - Suc k" using Suc.hyps(2) by simp
  have IH: "length cp' = length cp3 \<and> length H' = length (H[surf := s'])
       \<and> (\<forall>a<length (H[surf := s']). a \<noteq> surf \<longrightarrow> H' ! a = H[surf := s'] ! a)
       \<and> take (Suc k * n) cp' = take (Suc k * n) cp3
       \<and> rotations E (m - Suc k) (H[surf := s'] ! surf) = Inr (H' ! surf)
       \<and> (\<forall>i. Suc k \<le> i \<and> i < m \<longrightarrow>
            (\<exists>si. rotations E (i - Suc k) (H[surf := s'] ! surf) = Inr si
                 \<and> length (flat_transposed (controlpoints si)) = n * 4
                 \<and> take n (drop (i * n) cp') = station_rows i si))"
    using Suc.hyps(1) [OF d, of cp3 "H[surf := s']"] rec cp3 Suc.prems(2,3) len3 by simp
  have upd: "H[surf := s'] ! surf = s'" using Suc.prems(2) by simp
  have tk: "take (Suc k * n) cp' = take (Suc k * n) cp3" using IH by blast
  have t1: "take (k * n) cp' = take (k * n) cp"
  proof -
    have "take (k * n) cp' = take (k * n) (take (Suc k * n) cp')" by (simp add: min_def)
    also have "\<dots> = take (k * n) (take (Suc k * n) cp3)" by (simp only: tk)
    also have "\<dots> = take (k * n) cp3" by (simp add: min_def)
    also have "\<dots> = take (k * n) cp" using fit by (simp add: cp3_def)
    finally show ?thesis .
  qed
  have t2: "take n (drop (k * n) cp') = station_rows k ?s"
  proof -
    have "take n (drop (k * n) cp') = drop (k * n) (take (Suc k * n) cp')"
      by (simp add: drop_take)
    also have "\<dots> = drop (k * n) (take (Suc k * n) cp3)" by (simp only: tk)
    also have "\<dots> = take n (drop (k * n) cp3)" by (simp add: drop_take)
    also have "\<dots> = map (scale_col 3 ?w \<circ> scale_col 2 ?w) block"
      using fit bl by (simp add: cp3_def)
    finally show ?thesis by (simp add: station_rows_def bc)
  qed
  have r1: "rotations E (m - k) ?s = Inr (H' ! surf)"
  proof -
    have "m - k = Suc (m - Suc k)" using km by simp
    then show ?thesis using IH rot upd by simp
  qed
  have st: "\<exists>si. rotations E (i - k) ?s = Inr si
              \<and> length (flat_transposed (controlpoints si)) = n * 4
              \<and> take n (drop (i * n) cp') = station_rows i si"
    if "k \<le> i" "i < m" for i
  proof (cases "i = k")
    case True
    then show ?thesis using t2 fl by simp
  next
    case False
    then have ge: "Suc k \<le> i" using that by simp
    then have "i - k = Suc (i - Suc k)" by simp
    then show ?thesis using IH ge that(2) rot upd by simp
  qed
  show ?case using IH len3 t1 r1 st Suc.prems(2) by (auto simp: nth_list_update)
qed

lemma scale_col_one [simp]: "scale_col c 1 = (\<lambda>row. row)"
  by (rule ext) (simp add: scale_col_def)

lemma chunks_rows:
  assumes "length xs = r * 4"
  shows "length (chunks 4 xs) = r" and "\<forall>c \<in> set (chunks 4 xs). length c = 4"
  using chunks_exact [where k = 4, OF _ assms] by simp_all

lemma station_rows_even:
  "even i \<Longrightarrow> station_rows i s = chunks 4 (flat_transposed (controlpoints s))"
  by (simp add: station_rows_def station_weight_def comp_def)

lemma scale_cols_row:
  "length p = 4 \<Longrightarrow> scale_col 3 w (scale_col 2 w p) = p[2 := p ! 2 * w, 3 := p ! 3 * w]"
  by (simp add: scale_col_def)

lemma station_rows_odd:
  assumes "odd i" "length (flat_transposed (controlpoints s)) = n * 4"
  shows "station_rows i s =
         map (\<lambda>p. p[2 := p ! 2 / sqrt 2, 3 := p ! 3 / sqrt 2]) (chunks 4 (flat_transposed (controlpoints s)))"
proof -
  have w: "station_weight i = 1 / sqrt 2" using assms(1) by (simp add: station_weight_def odd_iff_mod_2_eq_one)
  have "\<forall>c \<in> set (chunks 4 (flat_transposed (controlpoints s))). length c = 4"
    by (rule chunks_rows(2) [OF assms(2)])
  then show ?thesis
    unfolding station_rows_def w by (intro map_cong) (auto simp: scale_cols_row)
qed

lemma revolve_layout:
  assumes "revolve E surf theta H = Inr (v, H')"
  shows "(\<exists>s1 profile basis0 basis last cp.
           surf < length H
         \<and> surface_set_dimension E 3 (H ! surf) = Inr s1
         \<and> surface_force_rational E s1 = Inr profile
         \<and> BSplineBasis E (Some 3) (Some revolve_knots) (Some 0) = Inr basis0
         \<and> basis_imul E (2 * pi / 4) basis0 = Inr basis
         \<and> rotations E 8 profile = Inr last
         \<and> Volume E (Some (bases last ! 0)) (Some (bases last ! 1)) (Some basis) (Some cp) True = Inr v
         \<and> length cp = 8 * surface_len E profile
         \<and> (\<forall>i<8. \<exists>si. rotations E i profile = Inr si
                \<and> length (chunks 4 (flat_transposed (controlpoints si))) = surface_len E profile
                \<and> take (surface_len E profile) (drop (i * surface_len E profile) cp) =
                    (if even i then chunks 4 (flat_transposed (controlpoints si))
                     else map (\<lambda>p. p[2 := p ! 2 / sqrt 2, 3 := p ! 3 / sqrt 2])
                            (chunks 4 (flat_transposed (controlpoints si))))))
       \<and> (\<forall>a<length H. H' ! a = H ! a)"
proof -
  from assms obtain s1 profile basis0 basis cp H4 where
    lt: "surf < length H" and
    sd: "surface_set_dimension E 3 (H ! surf) = Inr s1" and
    fr: "surface_force_rational E s1 = Inr profile" and
    b0: "BSplineBasis E (Some 3) (Some revolve_knots) (Some 0) = Inr basis0" and
    b1: "basis_imul E (2 * pi / 4) basis0 = Inr basis" and
    loop: "revolve_loop E (length H) (surface_len E profile) [0..<8]
             (np_zeros2 (8 * surface_len E profile) 4) ((H @ [H ! surf])[length H := s1, length H := profile])
           = Inr (cp, H4)" and
    vol: "Volume E (Some (bases (H4 ! length H) ! 0)) (Some (bases (H4 ! length H) ! 1)) (Some basis) (Some cp) True = Inr v" and
    H': "H' = H4"
    unfolding revolve_def
    by (auto simp: clone_Inr_iff mutate_Inr_iff deref_Inr_iff getitem_Inr_iff Let_def)
  let ?n = "surface_len E profile"
  let ?H3 = "(H @ [H ! surf])[length H := s1, length H := profile]"
  have at: "?H3 ! length H = profile" by simp
  have F: "\<forall>a<length ?H3. a \<noteq> length H \<longrightarrow> H4 ! a = ?H3 ! a"
    using revolve_loop_layout [OF loop] by (simp add: np_zeros2_def)
  have frame: "\<forall>a<length H. H' ! a = H ! a"
    unfolding H' using F by (simp add: nth_append)
  have L: "length cp = length (np_zeros2 (8 * ?n) 4)
       \<and> rotations E (8 - 0) (?H3 ! length H) = Inr (H4 ! length H)
       \<and> (\<forall>i. 0 \<le> i \<and> i < 8 \<longrightarrow>
            (\<exists>si. rotations E (i - 0) (?H3 ! length H) = Inr si
                 \<and> length (flat_transposed (controlpoints si)) = ?n * 4
                 \<and> take ?n (drop (i * ?n) cp) = station_rows i si))"
    using revolve_loop_layout [OF loop] by (simp add: np_zeros2_def)
  have len: "length cp = 8 * ?n" using L by (simp add: np_zeros2_def)
  have last: "rotations E 8 profile = Inr (H4 ! length H)" using L at by simp
  have st: "\<exists>si. rotations E i profile = Inr si
                \<and> length (chunks 4 (flat_transposed (controlpoints si))) = ?n
                \<and> take ?n (drop (i * ?n) cp) =
                    (if even i then chunks 4 (flat_transposed (controlpoints si))
                     else map (\<lambda>p. p[2 := p ! 2 / sqrt 2, 3 := p ! 3 / sqrt 2])
                            (chunks 4 (flat_transposed (controlpoints si))))" if "i < 8" for i
  proof -
    from L that at obtain si where
      r: "rotations E i profile = Inr si" and
      f: "length (flat_transposed (controlpoints si)) = ?n * 4" and
      t: "take ?n (drop (i * ?n) cp) = station_rows i si" by auto
    have c: "length (chunks 4 (flat_transposed (controlpoints si))) = ?n"
      by (rule chunks_rows(1) [OF f])
    show ?thesis
      using r c t station_rows_even [of i si] station_rows_odd [of i si ?n] f by auto
  qed
  have "\<exists>s1 profile basis0 basis last cp.
             surf < length H
           \<and> surface_set_dimension E 3 (H ! surf) = Inr s1
           \<and> surface_force_rational E s1 = Inr profile
           \<and> BSplineBasis E (Some 3) (Some revolve_knots) (Some 0) = Inr basis0
           \<and> basis_imul E (2 * pi / 4) basis0 = Inr basis
           \<and> rotations E 8 profile = Inr last
           \<and> Volume E (Some (bases last ! 0)) (Some (bases last ! 1)) (Some basis) (Some cp) True = Inr v
           \<and> length cp = 8 * surface_len E profile
           \<and> (\<forall>i<8. \<exists>si. rotations E i profile = Inr si
                  \<and> length (chunks 4 (flat_transposed (controlpoints si))) = surface_len E profile
                  \<and> take (surface_len E profile) (drop (i * surface_len E profile) cp) =
                      (if even i then chunks 4 (flat_transposed (controlpoints si))
                       else map (\<lambda>p. p[2 := p ! 2 / sqrt 2, 3 := p ! 3 / sqrt 2])
                              (chunks 4 (flat_transposed (controlpoints si)))))"
    using lt sd fr b0 b1 last vol len st by blast
  then show ?thesis using frame by (rule conjI)
qed

text \<open>
  C9 (as amended): for every profile surface, a volume returned by \<^verbatim>\<open>revolve\<close> is built by
  the \<^verbatim>\<open>Volume\<close> constructor with the rational flag \<open>True\<close>, with the fixed periodic basis
  in the swept direction and with \<open>8 * n\<close> control points, where \<open>n\<close> is the number of
  control points of the profile after its promotion to three dimensions and to rational
  form. The control points are eight stations of \<open>n\<close> rows of four coordinates: station
  \<open>i\<close> holds the control points of the promoted profile after \<open>i\<close> rotations by \<open>pi / 4\<close>,
  first direction fastest. On an even station the rows are those of the rotated profile,
  unchanged: the weight channel is multiplied by \<open>1.0\<close>, so it keeps the weight of the
  profile, which is \<open>1.0\<close> only when the profile has unit weights. On an odd station the
  \<open>z\<close> channel (index 2) and the weight channel (index 3) of each row are multiplied by
  \<open>1 / sqrt 2\<close>.
\<close>

theorem revolve_stations:
  assumes "revolve E surf theta H = Inr (v, H')"
  shows "\<exists>s1 profile basis0 basis last cp.
           surf < length H
         \<and> surface_set_dimension E 3 (H ! surf) = Inr s1
         \<and> surface_force_rational E s1 = Inr profile
         \<and> BSplineBasis E (Some 3) (Some revolve_knots) (Some 0) = Inr basis0
         \<and> basis_imul E (2 * pi / 4) basis0 = Inr basis
         \<and> rotations E 8 profile = Inr last
         \<and> Volume E (Some (bases last ! 0)) (Some (bases last ! 1)) (Some basis) (Some cp) True = Inr v
         \<and> length cp = 8 * surface_len E profile
         \<and> (\<forall>i<8. \<exists>si. rotations E i profile = Inr si
                \<and> length (chunks 4 (flat_transposed (controlpoints si))) = surface_len E profile
                \<and> take (surface_len E profile) (drop (i * surface_len E profile) cp) =
                    (if even i then chunks 4 (flat_transposed (controlpoints si))
                     else map (\<lambda>p. p[2 := p ! 2 / sqrt 2, 3 := p ! 3 / sqrt 2])
                            (chunks 4 (flat_transposed (controlpoints si)))))"
  using revolve_layout [OF assms] by (rule conjunct1)


lemma revolve_loop_total:
  assumes "surf < length H"
      and "\<forall>j \<le> m - k. \<exists>sj. rotations E j (H ! surf) = Inr sj
                \<and> length (flat_transposed (controlpoints sj)) = n * 4"
  shows "\<exists>cp' H'. revolve_loop E surf n [k..<m] cp H = Inr (cp', H')"
  using assms
proof (induction "m - k" arbitrary: k cp H)
  case 0
  then show ?case by simp
next
  case (Suc d)
  then have km: "k < m" by simp
  then have upt: "[k..<m] = k # [Suc k..<m]" by (simp add: upt_conv_Cons)
  let ?s = "H ! surf"
  from Suc.prems(2) have "\<exists>sj. rotations E 0 ?s = Inr sj
      \<and> length (flat_transposed (controlpoints sj)) = n * 4" by blast
  then have fl: "length (flat_transposed (controlpoints ?s)) = n * 4" by simp
  have "1 \<le> m - k" using km by simp
  with Suc.prems(2) obtain s1 where "rotations E (Suc 0) ?s = Inr s1" by force
  then have rot: "surface_rotate E (pi / 4) ?s = Inr s1" by (simp split: sum.splits)
  have nxt: "\<forall>j \<le> m - Suc k. \<exists>sj. rotations E j (H[surf := s1] ! surf) = Inr sj
                \<and> length (flat_transposed (controlpoints sj)) = n * 4"
  proof (intro allI impI)
    fix j assume "j \<le> m - Suc k"
    then have "Suc j \<le> m - k" using km by simp
    with Suc.prems(2) obtain sj where "rotations E (Suc j) ?s = Inr sj"
      "length (flat_transposed (controlpoints sj)) = n * 4" by blast
    then show "\<exists>sj. rotations E j (H[surf := s1] ! surf) = Inr sj
                \<and> length (flat_transposed (controlpoints sj)) = n * 4"
      using rot Suc.prems(1) by simp
  qed
  have d: "d = m - Suc k" using Suc.hyps(2) by simp
  have len: "surf < length (H[surf := s1])" using Suc.prems(1) by simp
  from Suc.hyps(1) [OF d len nxt]
  show ?case
    unfolding upt using fl rot Suc.prems(1)
    by (simp add: deref_def mutate_def np_reshape2_def Let_def)
qed

lemma revolve_total:
  assumes "surf < length H"
      and "surface_set_dimension E 3 (H ! surf) = Inr s1"
      and "surface_force_rational E s1 = Inr profile"
      and "BSplineBasis E (Some 3) (Some revolve_knots) (Some 0) = Inr basis0"
      and "basis_imul E (2 * pi / 4) basis0 = Inr basis"
      and "\<forall>j \<le> 8. \<exists>sj. rotations E j profile = Inr sj
                \<and> length (flat_transposed (controlpoints sj)) = surface_len E profile * 4
                \<and> 2 \<le> length (bases sj)"
      and "\<forall>s8 cp. rotations E 8 profile = Inr s8 \<and> length cp = 8 * surface_len E profile \<longrightarrow>
              (\<exists>v. Volume E (Some (bases s8 ! 0)) (Some (bases s8 ! 1)) (Some basis) (Some cp) True = Inr v)"
  shows "\<exists>v H'. revolve E surf theta H = Inr (v, H')"
proof -
  let ?n = "surface_len E profile"
  let ?H3 = "(H @ [H ! surf])[length H := s1, length H := profile]"
  have at: "?H3 ! length H = profile" by simp
  have lt: "length H < length ?H3" by simp
  have rots: "\<forall>j \<le> 8 - 0. \<exists>sj. rotations E j (?H3 ! length H) = Inr sj
                \<and> length (flat_transposed (controlpoints sj)) = ?n * 4"
    using assms(6) at by auto
  from revolve_loop_total [OF lt rots, of "np_zeros2 (8 * ?n) 4"]
  obtain cp H4 where loop: "revolve_loop E (length H) ?n [0..<8] (np_zeros2 (8 * ?n) 4) ?H3 = Inr (cp, H4)"
    by blast
  have L: "length cp = length (np_zeros2 (8 * ?n) 4) \<and> length H4 = length ?H3
       \<and> rotations E (8 - 0) (?H3 ! length H) = Inr (H4 ! length H)"
    using revolve_loop_layout [OF loop] by (simp add: np_zeros2_def)
  then have len: "length cp = 8 * ?n" and lH: "length H < length H4"
    and last: "rotations E 8 profile = Inr (H4 ! length H)"
    using at by (simp_all add: np_zeros2_def)
  from assms(6) last have "2 \<le> length (bases (H4 ! length H))" by force
  then have b: "bases (H4 ! length H) \<noteq> []" "Suc 0 < length (bases (H4 ! length H))" by auto
  from assms(7) len last obtain v where
    "Volume E (Some (bases (H4 ! length H) ! 0)) (Some (bases (H4 ! length H) ! 1)) (Some basis) (Some cp) True = Inr v"
    by blast
  then show ?thesis
    unfolding revolve_def using assms(1-5) loop lH b
    by (simp add: clone_def deref_def mutate_def getitem_def Let_def)
qed


subsection \<open>The revolution of a rectangle\<close>

lemma length_flat_transposed_map:
  assumes "\<And>p. length (f p) = length p"
  shows "length (flat_transposed (map (map f) a)) = length (flat_transposed a)"
proof -
  have "concat (map (map f) T) = map f (concat T)" for T :: "point list list"
    by (simp add: map_concat)
  moreover have "length (concat (map f ps)) = length (concat ps)" for ps :: "point list"
    by (induction ps) (simp_all add: assms)
  ultimately show ?thesis
    by (simp add: flat_transposed_def transpose_map_map)
qed

lemma ref_rotations:
  "\<exists>sj. rotations ref_kernel j s = Inr sj
     \<and> length (flat_transposed (controlpoints sj)) = length (flat_transposed (controlpoints s))
     \<and> bases sj = bases s"
proof (induction j arbitrary: s)
  case 0
  then show ?case by simp
next
  case (Suc j)
  let ?f = "\<lambda>p::point. case p of x # y # r \<Rightarrow> (x * cos (pi / 4) - y * sin (pi / 4)) # (x * sin (pi / 4) + y * cos (pi / 4)) # r | _ \<Rightarrow> p"
  have f: "length (?f p) = length p" for p by (simp split: list.splits)
  let ?s' = "s\<lparr>controlpoints := map (map ?f) (controlpoints s)\<rparr>"
  have rot: "surface_rotate ref_kernel (pi / 4) s = Inr ?s'"
    by (simp add: ref_kernel_def ref_rotate_def)
  from Suc [of ?s'] obtain sj where "rotations ref_kernel j ?s' = Inr sj"
    "length (flat_transposed (controlpoints sj)) = length (flat_transposed (controlpoints ?s'))"
    "bases sj = bases ?s'" by blast
  then show ?case
    using rot length_flat_transposed_map [of ?f "controlpoints s", OF f] by simp
qed

lemma promote_profile:
  "surface_set_dimension ref_kernel 3 (profile_heap ! 0) = Inr (profile_heap ! 0)"
  "surface_force_rational ref_kernel (profile_heap ! 0) = Inr promoted_profile"
  by (simp_all add: ref_kernel_def ref_set_dimension_def ref_point_set_dimension_def
      ref_force_rational_def profile_heap_def patch_def promoted_profile_def)

lemma promoted_profile_size:
  "surface_len ref_kernel promoted_profile = 4"
  "length (flat_transposed (controlpoints promoted_profile)) = 16"
  "length (bases promoted_profile) = 2"
  by (simp_all add: ref_kernel_def ref_len_def promoted_profile_def flat_transposed_def)


lemma chunks_numeral_Cons:
  "chunks (numeral k) (x # xs) =
     take (numeral k) (x # xs) # chunks (numeral k) (drop (numeral k) (x # xs))"
  by (subst chunks.simps) simp

lemma ref_revolve_basis:
  "BSplineBasis ref_kernel (Some 3) (Some revolve_knots) (Some 0)
     = Inr \<lparr>order = 3, knots = revolve_knots, periodic = 0\<rparr>"
  "basis_imul ref_kernel (2 * pi / 4) \<lparr>order = 3, knots = revolve_knots, periodic = 0\<rparr>
     = Inr \<lparr>order = 3, knots = map (\<lambda>t. t * (2 * pi / 4)) revolve_knots, periodic = 0\<rparr>"
  by (simp_all add: ref_kernel_def ref_BSplineBasis_def ref_basis_imul_def revolve_knots_def)

lemma ref_revolve_volume:
  assumes "bases s8 = [linear_basis, linear_basis]" "length cp = 32"
  shows "\<exists>v. Volume ref_kernel (Some (bases s8 ! 0)) (Some (bases s8 ! 1))
            (Some \<lparr>order = 3, knots = map (\<lambda>t. t * (2 * pi / 4)) revolve_knots, periodic = 0\<rparr>)
            (Some cp) True = Inr v"
  using assms
  by (simp add: ref_kernel_def ref_Volume_def ref_num_functions_def linear_basis_def revolve_knots_def Let_def)

lemma ref_revolve_runs:
  assumes "a < length H"
      and "surface_set_dimension ref_kernel 3 (H ! a) = Inr s1"
      and "surface_force_rational ref_kernel s1 = Inr p"
      and "surface_len ref_kernel p = 4"
      and "length (flat_transposed (controlpoints p)) = 16"
      and "bases p = [linear_basis, linear_basis]"
  shows "\<exists>v H'. revolve ref_kernel a theta H = Inr (v, H')"
proof -
  have rots: "\<forall>j \<le> 8. \<exists>sj. rotations ref_kernel j p = Inr sj
      \<and> length (flat_transposed (controlpoints sj)) = surface_len ref_kernel p * 4
      \<and> 2 \<le> length (bases sj)"
  proof (intro allI impI)
    fix j :: nat
    from ref_rotations [of j p] obtain sj where
      "rotations ref_kernel j p = Inr sj"
      "length (flat_transposed (controlpoints sj)) = length (flat_transposed (controlpoints p))"
      "bases sj = bases p" by blast
    then show "\<exists>sj. rotations ref_kernel j p = Inr sj
      \<and> length (flat_transposed (controlpoints sj)) = surface_len ref_kernel p * 4
      \<and> 2 \<le> length (bases sj)"
      by (simp add: assms(4,5,6))
  qed
  have vols: "\<forall>s8 cp. rotations ref_kernel 8 p = Inr s8
        \<and> length cp = 8 * surface_len ref_kernel p \<longrightarrow>
      (\<exists>v. Volume ref_kernel (Some (bases s8 ! 0)) (Some (bases s8 ! 1))
            (Some \<lparr>order = 3, knots = map (\<lambda>t. t * (2 * pi / 4)) revolve_knots, periodic = 0\<rparr>)
            (Some cp) True = Inr v)"
  proof (intro allI impI)
    fix s8 :: surface and cp :: "point list"
    assume a: "rotations ref_kernel 8 p = Inr s8
        \<and> length cp = 8 * surface_len ref_kernel p"
    with ref_rotations [of 8 p] have "bases s8 = [linear_basis, linear_basis]"
      by (auto simp: assms(6))
    then show "\<exists>v. Volume ref_kernel (Some (bases s8 ! 0)) (Some (bases s8 ! 1))
            (Some \<lparr>order = 3, knots = map (\<lambda>t. t * (2 * pi / 4)) revolve_knots, periodic = 0\<rparr>)
            (Some cp) True = Inr v"
      using a by (intro ref_revolve_volume) (simp_all add: assms(4))
  qed
  from revolve_total [OF assms(1,2,3) ref_revolve_basis rots vols, of theta]
  show ?thesis .
qed

lemma ref_revolve_result:
  assumes sd: "surface_set_dimension ref_kernel 3 (H ! a) = Inr s1'"
      and fr: "surface_force_rational ref_kernel s1' = Inr p"
      and n: "surface_len ref_kernel p = 4"
      and lay: "\<exists>s1 profile basis0 basis last cp.
             a < length H
           \<and> surface_set_dimension ref_kernel 3 (H ! a) = Inr s1
           \<and> surface_force_rational ref_kernel s1 = Inr profile
           \<and> BSplineBasis ref_kernel (Some 3) (Some revolve_knots) (Some 0) = Inr basis0
           \<and> basis_imul ref_kernel (2 * pi / 4) basis0 = Inr basis
           \<and> rotations ref_kernel 8 profile = Inr last
           \<and> Volume ref_kernel (Some (bases last ! 0)) (Some (bases last ! 1)) (Some basis) (Some cp) True = Inr v
           \<and> length cp = 8 * surface_len ref_kernel profile
           \<and> (\<forall>i<8. \<exists>si. rotations ref_kernel i profile = Inr si
                  \<and> length (chunks 4 (flat_transposed (controlpoints si))) = surface_len ref_kernel profile
                  \<and> take (surface_len ref_kernel profile) (drop (i * surface_len ref_kernel profile) cp) =
                      (if even i then chunks 4 (flat_transposed (controlpoints si))
                       else map (\<lambda>p. p[2 := p ! 2 / sqrt 2, 3 := p ! 3 / sqrt 2])
                              (chunks 4 (flat_transposed (controlpoints si)))))"
  shows "\<exists>last cp. rotations ref_kernel 8 p = Inr last
       \<and> Volume ref_kernel (Some (bases last ! 0)) (Some (bases last ! 1))
            (Some \<lparr>order = 3, knots = map (\<lambda>t. t * (2 * pi / 4)) revolve_knots, periodic = 0\<rparr>) (Some cp) True = Inr v
       \<and> length cp = 32
       \<and> (\<forall>i<8. \<exists>si. rotations ref_kernel i p = Inr si
                \<and> take 4 (drop (i * 4) cp) =
                    (if even i then chunks 4 (flat_transposed (controlpoints si))
                     else map (\<lambda>q. q[2 := q ! 2 / sqrt 2, 3 := q ! 3 / sqrt 2])
                            (chunks 4 (flat_transposed (controlpoints si)))))"
proof -
  from lay obtain s1 profile basis0 basis last cp where
    sd0: "surface_set_dimension ref_kernel 3 (H ! a) = Inr s1" and
    fr0: "surface_force_rational ref_kernel s1 = Inr profile" and
    b0: "BSplineBasis ref_kernel (Some 3) (Some revolve_knots) (Some 0) = Inr basis0" and
    b1: "basis_imul ref_kernel (2 * pi / 4) basis0 = Inr basis" and
    last0: "rotations ref_kernel 8 profile = Inr last" and
    vol0: "Volume ref_kernel (Some (bases last ! 0)) (Some (bases last ! 1)) (Some basis) (Some cp) True = Inr v" and
    len0: "length cp = 8 * surface_len ref_kernel profile" and
    st0: "\<forall>i<8. \<exists>si. rotations ref_kernel i profile = Inr si
                \<and> length (chunks 4 (flat_transposed (controlpoints si))) = surface_len ref_kernel profile
                \<and> take (surface_len ref_kernel profile) (drop (i * surface_len ref_kernel profile) cp) =
                    (if even i then chunks 4 (flat_transposed (controlpoints si))
                     else map (\<lambda>p. p[2 := p ! 2 / sqrt 2, 3 := p ! 3 / sqrt 2])
                            (chunks 4 (flat_transposed (controlpoints si))))"
    by (elim exE conjE) (rule that; assumption)
  have e1: "s1 = s1'" using sd0 by (simp only: sd sum.inject)
  have e2: "profile = p" using fr0 unfolding e1 by (simp only: fr sum.inject)
  have e3: "basis0 = \<lparr>order = 3, knots = revolve_knots, periodic = 0\<rparr>"
    using b0 by (simp only: ref_revolve_basis sum.inject)
  have e4: "basis = \<lparr>order = 3, knots = map (\<lambda>t. t * (2 * pi / 4)) revolve_knots, periodic = 0\<rparr>"
    using b1 unfolding e3 by (simp only: ref_revolve_basis sum.inject)
  note last = last0 [unfolded e2]
  note vol = vol0 [unfolded e4]
  have len: "length cp = 32" using len0 unfolding e2 by (simp add: n)
  have st: "(\<forall>i<8. \<exists>si. rotations ref_kernel i p = Inr si
                  \<and> take 4 (drop (i * 4) cp) =
                      (if even i then chunks 4 (flat_transposed (controlpoints si))
                       else map (\<lambda>q. q[2 := q ! 2 / sqrt 2, 3 := q ! 3 / sqrt 2])
                              (chunks 4 (flat_transposed (controlpoints si)))))"
  proof (intro allI impI)
    fix i :: nat assume "i < 8"
    from st0 [unfolded e2 n, rule_format, OF this]
    show "\<exists>si. rotations ref_kernel i p = Inr si
                \<and> take 4 (drop (i * 4) cp) =
                    (if even i then chunks 4 (flat_transposed (controlpoints si))
                     else map (\<lambda>q. q[2 := q ! 2 / sqrt 2, 3 := q ! 3 / sqrt 2])
                            (chunks 4 (flat_transposed (controlpoints si))))"
      by blast
  qed
  show ?thesis using last vol len st by blast
qed

lemma promoted_profile_bases: "bases promoted_profile = [linear_basis, linear_basis]"
  by (simp add: promoted_profile_def)

lemma profile_stations:
  assumes "(\<forall>i<8. \<exists>si. rotations ref_kernel i promoted_profile = Inr si
                  \<and> take 4 (drop (i * 4) cp) =
                      (if even i then chunks 4 (flat_transposed (controlpoints si))
                       else map (\<lambda>q. q[2 := q ! 2 / sqrt 2, 3 := q ! 3 / sqrt 2])
                              (chunks 4 (flat_transposed (controlpoints si)))))"
  shows "take 4 cp = [[1, 0, 0, 1], [2, 0, 0, 1], [1, 0, 1, 1], [2, 0, 1, 1]]"
    and "take 4 (drop 4 cp) =
        [[cos (pi / 4), sin (pi / 4), 0, 1 / sqrt 2], [2 * cos (pi / 4), 2 * sin (pi / 4), 0, 1 / sqrt 2],
         [cos (pi / 4), sin (pi / 4), 1 / sqrt 2, 1 / sqrt 2],
         [2 * cos (pi / 4), 2 * sin (pi / 4), 1 / sqrt 2, 1 / sqrt 2]]"
proof -
  from assms [rule_format, of 0]
  show "take 4 cp = [[1, 0, 0, 1], [2, 0, 0, 1], [1, 0, 1, 1], [2, 0, 1, 1]]"
    by (simp add: promoted_profile_def flat_transposed_def chunks_numeral_Cons)
  from assms [rule_format, of 1]
  show "take 4 (drop 4 cp) =
        [[cos (pi / 4), sin (pi / 4), 0, 1 / sqrt 2], [2 * cos (pi / 4), 2 * sin (pi / 4), 0, 1 / sqrt 2],
         [cos (pi / 4), sin (pi / 4), 1 / sqrt 2, 1 / sqrt 2],
         [2 * cos (pi / 4), 2 * sin (pi / 4), 1 / sqrt 2, 1 / sqrt 2]]"
    by (simp add: promoted_profile_def flat_transposed_def chunks_numeral_Cons ref_kernel_def ref_rotate_def)
qed

lemma profile_revolve_runs:
  "\<exists>v H'. revolve ref_kernel 0 theta profile_heap = Inr (v, H')"
proof -
  have lt: "0 < length profile_heap" by (simp add: profile_heap_def)
  show ?thesis
    by (rule ref_revolve_runs [OF lt promote_profile promoted_profile_size(1,2) promoted_profile_bases])
qed

theorem revolve_stations_witness:
  "\<exists>v H' last cp.
      revolve ref_kernel 0 (2 * pi) profile_heap = Inr (v, H')
    \<and> rotations ref_kernel 8 promoted_profile = Inr last
    \<and> Volume ref_kernel (Some (bases last ! 0)) (Some (bases last ! 1))
         (Some \<lparr>order = 3, knots = map (\<lambda>t. t * (2 * pi / 4)) revolve_knots, periodic = 0\<rparr>)
         (Some cp) True = Inr v
    \<and> length cp = 32
    \<and> take 4 cp = [[1, 0, 0, 1], [2, 0, 0, 1], [1, 0, 1, 1], [2, 0, 1, 1]]
    \<and> take 4 (drop 4 cp) =
        [[cos (pi / 4), sin (pi / 4), 0, 1 / sqrt 2], [2 * cos (pi / 4), 2 * sin (pi / 4), 0, 1 / sqrt 2],
         [cos (pi / 4), sin (pi / 4), 1 / sqrt 2, 1 / sqrt 2],
         [2 * cos (pi / 4), 2 * sin (pi / 4), 1 / sqrt 2, 1 / sqrt 2]]"
proof -
  from profile_revolve_runs [of "2 * pi"]
  obtain v H' where ev: "revolve ref_kernel 0 (2 * pi) profile_heap = Inr (v, H')" by blast
  from ref_revolve_result [OF promote_profile promoted_profile_size(1) revolve_stations [OF ev]]
  obtain last cp where
    last: "rotations ref_kernel 8 promoted_profile = Inr last" and
    vol: "Volume ref_kernel (Some (bases last ! 0)) (Some (bases last ! 1))
         (Some \<lparr>order = 3, knots = map (\<lambda>t. t * (2 * pi / 4)) revolve_knots, periodic = 0\<rparr>) (Some cp) True = Inr v" and
    len: "length cp = 32" and
    st: "(\<forall>i<8. \<exists>si. rotations ref_kernel i promoted_profile = Inr si
                  \<and> take 4 (drop (i * 4) cp) =
                      (if even i then chunks 4 (flat_transposed (controlpoints si))
                       else map (\<lambda>q. q[2 := q ! 2 / sqrt 2, 3 := q ! 3 / sqrt 2])
                              (chunks 4 (flat_transposed (controlpoints si)))))"
    by (elim exE conjE) (rule that; assumption)
  show ?thesis using ev last vol len profile_stations [OF st] by blast
qed

lemma weighted_profile:
  "surface_set_dimension ref_kernel 3 (weighted_heap ! 0) = Inr (weighted_heap ! 0)"
  "surface_force_rational ref_kernel (weighted_heap ! 0) = Inr (weighted_heap ! 0)"
  "surface_len ref_kernel (weighted_heap ! 0) = 4"
  "length (flat_transposed (controlpoints (weighted_heap ! 0))) = 16"
  "bases (weighted_heap ! 0) = [linear_basis, linear_basis]"
  by (simp_all add: ref_kernel_def ref_set_dimension_def ref_point_set_dimension_def
      ref_force_rational_def ref_len_def weighted_heap_def flat_transposed_def)

text \<open>
  The claim as it was written says that an even station keeps the weight channel at
  \<open>1.0\<close>. A rational profile whose control points all have the weight \<open>2\<close> is a surface
  that \<^verbatim>\<open>revolve\<close> accepts; station 0 of the volume it returns holds the control points
  of the profile with their weight \<open>2\<close>.
\<close>

theorem revolve_weight_counterexample:
  "\<exists>v H' last cp.
      revolve ref_kernel 0 (2 * pi) weighted_heap = Inr (v, H')
    \<and> rotations ref_kernel 8 (weighted_heap ! 0) = Inr last
    \<and> Volume ref_kernel (Some (bases last ! 0)) (Some (bases last ! 1))
         (Some \<lparr>order = 3, knots = map (\<lambda>t. t * (2 * pi / 4)) revolve_knots, periodic = 0\<rparr>)
         (Some cp) True = Inr v
    \<and> take 4 cp = [[1, 0, 0, 2], [2, 0, 0, 2], [1, 0, 1, 2], [2, 0, 1, 2]]
    \<and> map (\<lambda>q. q ! 3) (take 4 cp) = [2, 2, 2, 2]"
proof -
  have lt: "0 < length weighted_heap" by (simp add: weighted_heap_def)
  from ref_revolve_runs [OF lt weighted_profile, of "2 * pi"]
  obtain v H' where ev: "revolve ref_kernel 0 (2 * pi) weighted_heap = Inr (v, H')" by blast
  from ref_revolve_result [OF weighted_profile(1,2,3) revolve_layout [OF ev, THEN conjunct1]]
  obtain last cp where
    last: "rotations ref_kernel 8 (weighted_heap ! 0) = Inr last" and
    vol: "Volume ref_kernel (Some (bases last ! 0)) (Some (bases last ! 1))
         (Some \<lparr>order = 3, knots = map (\<lambda>t. t * (2 * pi / 4)) revolve_knots, periodic = 0\<rparr>) (Some cp) True = Inr v" and
    st: "(\<forall>i<8. \<exists>si. rotations ref_kernel i (weighted_heap ! 0) = Inr si
                  \<and> take 4 (drop (i * 4) cp) =
                      (if even i then chunks 4 (flat_transposed (controlpoints si))
                       else map (\<lambda>q. q[2 := q ! 2 / sqrt 2, 3 := q ! 3 / sqrt 2])
                              (chunks 4 (flat_transposed (controlpoints si)))))"
    by (elim exE conjE) (rule that; assumption)
  from st [rule_format, of 0]
  have s0: "take 4 cp = [[1, 0, 0, 2], [2, 0, 0, 2], [1, 0, 1, 2], [2, 0, 1, 2]]"
    by (simp add: weighted_heap_def flat_transposed_def chunks_numeral_Cons)
  then have w: "map (\<lambda>q. q ! 3) (take 4 cp) = [2, 2, 2, 2]" by simp
  show ?thesis by (intro exI conjI) (rule ev, rule last, rule vol, rule s0, rule w)
qed


subsection \<open>cylinder\<close>

lemma mapM_Inr_iff: "mapM f xs = Inr ys \<longleftrightarrow> list_all2 (\<lambda>x y. f x = Inr y) xs ys"
  by (induction xs arbitrary: ys) (auto simp: list_all2_Cons1)

lemma project_to_z_axis_Inr_iff:
  "project_to_z_axis p = Inr q \<longleftrightarrow> 4 \<le> length p \<and> q = [0, 0, p ! 2, p ! 3]"
  by (auto simp: project_to_z_axis_def getitem_Inr_iff)

lemma mapM_project:
  "mapM project_to_z_axis ps = Inr qs \<longleftrightarrow>
     list_all (\<lambda>p. 4 \<le> length p) ps \<and> qs = map (\<lambda>p. [0, 0, p ! 2, p ! 3]) ps"
proof (induction ps arbitrary: qs)
  case Nil
  then show ?case by auto
next
  case (Cons p ps)
  then show ?case by (auto simp: project_to_z_axis_Inr_iff)
qed

text \<open>
  C10: for every radius \<open>r\<close> and height \<open>h\<close>, when \<^verbatim>\<open>cylinder(r, h)\<close> returns a volume, that
  volume is built by the \<^verbatim>\<open>Volume\<close> constructor with the rational flag \<open>True\<close>, with the
  basis \<^verbatim>\<open>BSplineBasis()\<close> of the default arguments in the third direction, and with two
  copies of the control points of the shell surface, in this order: first every control
  point with \<open>x\<close> and \<open>y\<close> replaced by \<open>0\<close> (\<open>z\<close> and the weight kept), then the control
  points of the shell unchanged.
\<close>

theorem cylinder_layers:
  assumes "cylinder E r h = Inr v"
  shows "\<exists>shell b2.
           SurfaceFactory_cylinder E r h = Inr shell
         \<and> BSplineBasis E None None None = Inr b2
         \<and> list_all (\<lambda>p. 4 \<le> length p) (surface_iter E shell)
         \<and> Volume E (Some (bases shell ! 0)) (Some (bases shell ! 1)) (Some b2)
              (Some (map (\<lambda>p. [0, 0, p ! 2, p ! 3]) (surface_iter E shell) @ surface_iter E shell))
              True = Inr v"
  using assms unfolding cylinder_def
  by (auto simp: mapM_project getitem_Inr_iff Let_def)

lemma cylinder_total:
  assumes "SurfaceFactory_cylinder E r h = Inr shell"
      and "list_all (\<lambda>p. 4 \<le> length p) (surface_iter E shell)"
      and "2 \<le> length (bases shell)"
      and "BSplineBasis E None None None = Inr b2"
      and "Volume E (Some (bases shell ! 0)) (Some (bases shell ! 1)) (Some b2)
              (Some (map (\<lambda>p. [0, 0, p ! 2, p ! 3]) (surface_iter E shell) @ surface_iter E shell))
              True = Inr v"
  shows "cylinder E r h = Inr v"
proof -
  have "mapM project_to_z_axis (surface_iter E shell)
          = Inr (map (\<lambda>p. [0, 0, p ! 2, p ! 3]) (surface_iter E shell))"
    using assms(2) by (simp add: mapM_project)
  moreover have "getitem (bases shell) 0 = Inr (bases shell ! 0)" "getitem (bases shell) 1 = Inr (bases shell ! 1)"
    using assms(3) by (auto simp: getitem_def)
  ultimately show ?thesis
    unfolding cylinder_def using assms(1,4,5) by (simp add: Let_def)
qed

lemma ref_shell_iter:
  "surface_iter ref_kernel
     \<lparr>bases = bs, controlpoints = map (\<lambda>(x, y, w). [[r * x, r * y, 0, w], [r * x, r * y, h * w, w]]) circle_points,
      dimension = 3, rational = True\<rparr>
   = map (\<lambda>(x, y, w). [r * x, r * y, 0, w]) circle_points @ map (\<lambda>(x, y, w). [r * x, r * y, h * w, w]) circle_points"
  by (simp add: ref_kernel_def ref_iter_def circle_points_def Let_def)


lemma ref_Volume_total:
  assumes "length cp = ref_num_functions b1 * ref_num_functions b2 * ref_num_functions b3"
  shows "\<exists>v. Volume ref_kernel (Some b1) (Some b2) (Some b3) (Some cp) rat = Inr v"
  using assms by (simp add: ref_kernel_def ref_Volume_def Let_def)

lemma ref_default_basis: "BSplineBasis ref_kernel None None None = Inr linear_basis"
  by (simp add: ref_kernel_def ref_BSplineBasis_def linear_basis_def Let_def numeral_2_eq_2)

theorem cylinder_layers_witness:
  "\<exists>v shell.
      cylinder ref_kernel 1 2 = Inr v
    \<and> SurfaceFactory_cylinder ref_kernel 1 2 = Inr shell
    \<and> BSplineBasis ref_kernel None None None = Inr linear_basis
    \<and> list_all (\<lambda>p. 4 \<le> length p) (surface_iter ref_kernel shell)
    \<and> Volume ref_kernel (Some (bases shell ! 0)) (Some (bases shell ! 1)) (Some linear_basis)
         (Some (map (\<lambda>p. [0, 0, p ! 2, p ! 3]) (surface_iter ref_kernel shell) @ surface_iter ref_kernel shell))
         True = Inr v"
proof -
  define shell where "shell =
     \<lparr>bases = [\<lparr>order = 3, knots = map (\<lambda>t. t * (2 * pi / 4)) revolve_knots, periodic = 0\<rparr>, linear_basis],
      controlpoints = map (\<lambda>(x, y, w). [[1 * x, 1 * y, 0, w], [1 * x, 1 * y, 2 * w, w]]) circle_points,
      dimension = 3, rational = True\<rparr>"
  have sh: "SurfaceFactory_cylinder ref_kernel 1 2 = Inr shell"
    by (simp add: ref_kernel_def ref_cylinder_shell_def shell_def)
  have it: "surface_iter ref_kernel shell =
      map (\<lambda>(x, y, w). [1 * x, 1 * y, 0, w]) circle_points @ map (\<lambda>(x, y, w). [1 * x, 1 * y, 2 * w, w]) circle_points"
    unfolding shell_def by (rule ref_shell_iter)
  have pts: "list_all (\<lambda>p. 4 \<le> length p) (surface_iter ref_kernel shell)"
    unfolding it by (simp add: circle_points_def Let_def)
  have bs: "2 \<le> length (bases shell)" by (simp add: shell_def)
  have len: "length (map (\<lambda>p. [0, 0, p ! 2, p ! 3]) (surface_iter ref_kernel shell) @ surface_iter ref_kernel shell)
      = ref_num_functions (bases shell ! 0) * ref_num_functions (bases shell ! 1) * ref_num_functions linear_basis"
    unfolding it by (simp add: shell_def circle_points_def Let_def ref_num_functions_def linear_basis_def revolve_knots_def)
  from ref_Volume_total [OF len] obtain v where
    vol: "Volume ref_kernel (Some (bases shell ! 0)) (Some (bases shell ! 1)) (Some linear_basis)
         (Some (map (\<lambda>p. [0, 0, p ! 2, p ! 3]) (surface_iter ref_kernel shell) @ surface_iter ref_kernel shell))
         True = Inr v" by blast
  have ev: "cylinder ref_kernel 1 2 = Inr v"
    by (rule cylinder_total [OF sh pts bs ref_default_basis vol])
  from cylinder_layers [OF ev] show ?thesis using ev sh by (auto simp: ref_default_basis)
qed

subsection \<open>The ruled volume between two surfaces\<close>

lemma mapM_same: "list_all (\<lambda>x. f x = Inr x) xs \<Longrightarrow> mapM f xs = Inr xs"
  by (induction xs) simp_all

lemma bcast_same: "length xs = n \<Longrightarrow> bcast n xs = Inr xs"
  by (simp add: bcast_def)

lemma broadcast3_same_shape:
  assumes "has_shape3 n1 n2 d a" "has_shape3 n1 n2 d b"
  shows "(case shape3 a of (m1, m2, e) \<Rightarrow> broadcast3 m1 m2 e b) = Inr b"
proof (cases a)
  case Nil
  then show ?thesis using assms by (simp add: has_shape3_def shape3_def broadcast3_def bcast_def)
next
  case (Cons r rs)
  then have n1: "length a = n1" "length b = n1" and r: "length r = n2" "list_all (\<lambda>p. length p = d) r"
    using assms by (simp_all add: has_shape3_def)
  have rows: "list_all (\<lambda>row. length row = n2 \<and> list_all (\<lambda>p. length p = d) row) b"
    using assms(2) by (simp add: has_shape3_def)
  show ?thesis
  proof (cases r)
    case Nil
    then have "n2 = 0" using r by simp
    then have "list_all (\<lambda>row. ebind (bcast 0 row) (mapM (bcast 0)) = Inr row) b"
      using rows by (auto simp: list_all_iff bcast_def)
    then show ?thesis
      using Cons Nil n1 by (simp add: shape3_def broadcast3_def bcast_same mapM_same)
  next
    case (Cons p ps)
    then have "length p = d" using r by simp
    moreover have "list_all (\<lambda>row. ebind (bcast n2 row) (mapM (bcast d)) = Inr row) b"
      using rows by (auto simp: list_all_iff bcast_same intro!: mapM_same)
    ultimately show ?thesis
      using \<open>a = r # rs\<close> Cons n1 r by (simp add: shape3_def broadcast3_def bcast_same mapM_same)
  qed
qed

lemma layers_length:
  assumes "has_shape3 n1 n2 d a" "has_shape3 n1 n2 d b" "i < n1"
  shows "length (map2 (map2 (\<lambda>p q. [p, q])) a b ! i) = n2"
proof -
  have la: "length a = n1" "length b = n1" using assms by (simp_all add: has_shape3_def)
  have "length (a ! i) = n2" "length (b ! i) = n2"
    using assms la by (auto simp: has_shape3_def list_all_length)
  then show ?thesis using assms(3) la by simp
qed

lemma layers_nth:
  assumes "has_shape3 n1 n2 d a" "has_shape3 n1 n2 d b" "i < n1" "j < n2"
  shows "map2 (map2 (\<lambda>p q. [p, q])) a b ! i ! j = [a ! i ! j, b ! i ! j]"
proof -
  have la: "length a = n1" "length b = n1" using assms by (simp_all add: has_shape3_def)
  have "length (a ! i) = n2" "length (b ! i) = n2"
    using assms la by (auto simp: has_shape3_def list_all_length)
  then show ?thesis using assms(3,4) la by simp
qed

lemma edge_surfaces_collection:
  "edge_surfaces E [PSeq [x, y]] H = edge_surfaces E [x, y] H"
  by (simp add: edge_surfaces_def)

lemma edge_surfaces_two_eval:
  assumes "a1 < length H" "a2 < length H"
      and "surface_make_splines_identical E (H ! a1) (H ! a2) = Inr (s1, s2)"
      and "has_shape3 n1 n2 d (controlpoints s1)" and "has_shape3 n1 n2 d (controlpoints s2)"
      and "2 \<le> length (bases s1)"
      and "Volume E None None None None False = Inr v0"
      and "BSplineBasis E (Some 2) None None = Inr b2"
  shows "edge_surfaces_two E (PSeq [PSurface a1, PSurface a2]) H =
           Inr (v0\<lparr>v_bases := [bases s1 ! 0, bases s1 ! 1, b2], v_dimension := dimension s1,
                    v_rational := rational s1,
                    v_controlpoints := map2 (map2 (\<lambda>p q. [p, q])) (controlpoints s1) (controlpoints s2)\<rparr>,
                (H @ [H ! a1, H ! a2])[length H := s1, Suc (length H) := s2])"
proof -
  have b: "bases s1 \<noteq> []" "Suc 0 < length (bases s1)" using assms(6) by auto
  have d1: "(H @ [H ! a1, H ! a2]) ! length H = H ! a1"
    and d2: "(H @ [H ! a1, H ! a2]) ! Suc (length H) = H ! a2"
    by (simp_all add: nth_append)
  show ?thesis
    unfolding edge_surfaces_two_def
    using assms(1,2,3,7,8) b d1 d2 broadcast3_same_shape [OF assms(4,5)]
    by (simp add: py_getitem_def py_clone_def clone_def deref_def getitem_def nth_append Let_def
        split: prod.splits)
qed


text \<open>
  C8: for every two surfaces that the kernel unifies into two lattices of one shape
  \<open>(n1, n2, d)\<close>, \<^verbatim>\<open>edge_surfaces(surf1, surf2)\<close> returns a volume whose first two bases are
  those of the unified first surface and whose third basis is \<^verbatim>\<open>BSplineBasis(2)\<close>, the
  linear basis on two points; the lattice of the volume has two layers in the third
  direction: at every \<open>(i, j)\<close> the first layer is the control point of the unified
  \<open>surf1\<close> and the second layer the control point of the unified \<open>surf2\<close>. The dimension
  and the rational flag are those of the unified first surface, and no surface that
  existed before the call is changed.
\<close>

theorem edge_surfaces_reproduces_inputs:
  assumes "a1 < length H" "a2 < length H"
      and "surface_make_splines_identical E (H ! a1) (H ! a2) = Inr (s1, s2)"
      and "has_shape3 n1 n2 d (controlpoints s1)" and "has_shape3 n1 n2 d (controlpoints s2)"
      and "2 \<le> length (bases s1)"
      and "Volume E None None None None False = Inr v0"
      and "BSplineBasis E (Some 2) None None = Inr b2"
  shows "\<exists>v H'. edge_surfaces E [PSurface a1, PSurface a2] H = Inr (v, H')
        \<and> v_bases v = [bases s1 ! 0, bases s1 ! 1, b2]
        \<and> v_dimension v = dimension s1 \<and> v_rational v = rational s1
        \<and> length (v_controlpoints v) = n1
        \<and> (\<forall>i<n1. length (v_controlpoints v ! i) = n2)
        \<and> (\<forall>i<n1. \<forall>j<n2. v_controlpoints v ! i ! j = [controlpoints s1 ! i ! j, controlpoints s2 ! i ! j])
        \<and> (\<forall>a<length H. H' ! a = H ! a)"
proof -
  let ?cps = "map2 (map2 (\<lambda>p q. [p, q])) (controlpoints s1) (controlpoints s2)"
  let ?v = "v0\<lparr>v_bases := [bases s1 ! 0, bases s1 ! 1, b2], v_dimension := dimension s1,
                v_rational := rational s1, v_controlpoints := ?cps\<rparr>"
  let ?H' = "(H @ [H ! a1, H ! a2])[length H := s1, Suc (length H) := s2]"
  have ev: "edge_surfaces E [PSurface a1, PSurface a2] H = Inr (?v, ?H')"
    using edge_surfaces_two_eval [OF assms] by (simp add: edge_surfaces_def py_len_def)
  have len: "length ?cps = n1" using assms(4,5) by (simp add: has_shape3_def)
  have frame: "\<forall>a<length H. ?H' ! a = H ! a" by (simp add: nth_append)
  have c1: "\<forall>i<n1. length (?cps ! i) = n2"
    using layers_length [OF assms(4,5)] by blast
  have c2: "\<forall>i<n1. \<forall>j<n2. ?cps ! i ! j = [controlpoints s1 ! i ! j, controlpoints s2 ! i ! j]"
    using layers_nth [OF assms(4,5)] by blast
  have sel: "v_bases ?v = [bases s1 ! 0, bases s1 ! 1, b2]" "v_dimension ?v = dimension s1"
    "v_rational ?v = rational s1" "v_controlpoints ?v = ?cps" by simp_all
  show ?thesis
    by (intro exI [of _ ?v] exI [of _ ?H'] conjI; (simp only: sel)?) (rule ev len c1 c2 frame refl)+
qed

lemma ref_Volume_default: "\<exists>v0. Volume ref_kernel None None None None False = Inr v0"
  by (simp add: ref_kernel_def ref_Volume_def unit_cube_corners_def linear_basis_def
      ref_num_functions_def Let_def)

lemma ref_linear_basis: "BSplineBasis ref_kernel (Some 2) None None = Inr linear_basis"
  by (simp add: ref_kernel_def ref_BSplineBasis_def linear_basis_def Let_def numeral_2_eq_2)

lemma ref_identical_patches:
  "surface_make_splines_identical ref_kernel (patch p00 p10 p01 p11) (patch q00 q10 q01 q11) =
     (if length p00 = length q00 then Inr (patch p00 p10 p01 p11, patch q00 q10 q01 q11)
      else Inl ''refinement is not implemented'')"
  by (simp add: ref_kernel_def ref_surface_identical_def patch_def shape3_def)

theorem edge_surfaces_reproduces_inputs_witness:
  "\<exists>v H'. edge_surfaces ref_kernel [PSurface 4, PSurface 5] cube_faces = Inr (v, H')
     \<and> v_bases v = [linear_basis, linear_basis, linear_basis]
     \<and> v_controlpoints v ! 0 ! 0 = [[0, 0, 0], [0, 0, 1]]
     \<and> v_controlpoints v ! 1 ! 0 = [[1, 0, 0], [1, 0, 1]]
     \<and> v_controlpoints v ! 0 ! 1 = [[0, 1, 0], [0, 1, 1]]
     \<and> v_controlpoints v ! 1 ! 1 = [[1, 1, 0], [1, 1, 1]]
     \<and> H' ! 4 = cube_faces ! 4 \<and> H' ! 5 = cube_faces ! 5"
proof -
  let ?s1 = "patch [0, 0, 0] [1, 0, 0] [0, 1, 0] [1, 1, 0]"
  let ?s2 = "patch [0, 0, 1] [1, 0, 1] [0, 1, 1] [1, 1, 1]"
  have l: "4 < length cube_faces" "5 < length cube_faces" by (simp_all add: cube_faces_def)
  have a: "cube_faces ! 4 = ?s1" "cube_faces ! 5 = ?s2" by (simp_all add: cube_faces_def)
  have u: "surface_make_splines_identical ref_kernel (cube_faces ! 4) (cube_faces ! 5) = Inr (?s1, ?s2)"
    unfolding a by (simp add: ref_identical_patches)
  have sh: "has_shape3 2 2 3 (controlpoints ?s1)" "has_shape3 2 2 3 (controlpoints ?s2)"
    by (simp_all add: has_shape3_def patch_def)
  have b: "2 \<le> length (bases ?s1)" by (simp add: patch_def)
  obtain v0 where v0: "Volume ref_kernel None None None None False = Inr v0"
    using ref_Volume_default by blast
  from edge_surfaces_reproduces_inputs [OF l u sh b v0 ref_linear_basis]
  obtain v H' where
    ev: "edge_surfaces ref_kernel [PSurface 4, PSurface 5] cube_faces = Inr (v, H')" and
    bs: "v_bases v = [bases ?s1 ! 0, bases ?s1 ! 1, linear_basis]" and
    cp: "\<forall>i<2. \<forall>j<2. v_controlpoints v ! i ! j = [controlpoints ?s1 ! i ! j, controlpoints ?s2 ! i ! j]" and
    fr: "\<forall>a<length cube_faces. H' ! a = cube_faces ! a"
    by blast
  have c: "v_controlpoints v ! 0 ! 0 = [[0, 0, 0], [0, 0, 1]]"
      "v_controlpoints v ! 1 ! 0 = [[1, 0, 0], [1, 0, 1]]"
      "v_controlpoints v ! 0 ! 1 = [[0, 1, 0], [0, 1, 1]]"
      "v_controlpoints v ! 1 ! 1 = [[1, 1, 0], [1, 1, 1]]"
    using cp by (simp_all add: patch_def)
  have f: "H' ! 4 = cube_faces ! 4" "H' ! 5 = cube_faces ! 5" using fr l by blast+
  show ?thesis using ev bs c f by (simp add: patch_def)
qed

subsection \<open>The blend of six surfaces\<close>

lemma mapM_Inr_map:
  "list_all (\<lambda>x. f x = Inr (h x)) xs \<Longrightarrow> mapM f xs = Inr (map h xs)"
  by (induction xs) simp_all

lemma bzip_same:
  assumes "length b = length a"
      and "list_all (\<lambda>(x, y). f x y = Inr (h x y)) (zip a b)"
  shows "bzip f a b = Inr (map2 h a b)"
proof -
  have "list_all (\<lambda>p. (case p of (x, y) \<Rightarrow> f x y) = Inr (case p of (x, y) \<Rightarrow> h x y)) (zip a b)"
    using assms(2) by (simp add: list_all_iff case_prod_beta)
  from mapM_Inr_map [OF this] show ?thesis
    using assms(1) by (simp add: bzip_def bcast_def)
qed

lemma has_shape3_nth:
  "has_shape3 n1 n2 d a \<Longrightarrow> i < n1 \<Longrightarrow> length (a ! i) = n2"
  "has_shape3 n1 n2 d a \<Longrightarrow> i < n1 \<Longrightarrow> j < n2 \<Longrightarrow> length (a ! i ! j) = d"
  by (auto simp: has_shape3_def list_all_length)

lemma has_shape3_iff:
  "has_shape3 n1 n2 d a \<longleftrightarrow>
     length a = n1 \<and> (\<forall>i<n1. length (a ! i) = n2 \<and> (\<forall>j<n2. length (a ! i ! j) = d))"
  by (auto simp: has_shape3_def list_all_length)

lemma has_shape4_iff:
  "has_shape4 n1 n2 n3 d a \<longleftrightarrow> length a = n1 \<and> (\<forall>i<n1. has_shape3 n2 n3 d (a ! i))"
  by (auto simp: has_shape4_def list_all_length)

lemma bzip1:
  assumes "length b = length a"
  shows "bzip (\<lambda>x y. Inr (g x y)) a b = Inr (map2 g a b)"
  by (rule bzip_same [OF assms]) (simp add: list_all_iff)

lemma bzip2:
  assumes "length b = length a" "\<forall>i<length a. length (b ! i) = length (a ! i)"
  shows "bzip (bzip (\<lambda>x y. Inr (g x y))) a b = Inr (map2 (map2 g) a b)"
proof (rule bzip_same [OF assms(1)])
  show "list_all (\<lambda>(x, y). bzip (\<lambda>x y. Inr (g x y)) x y = Inr (map2 g x y)) (zip a b)"
    using assms by (auto simp: list_all_length intro!: bzip1)
qed

lemma bzip3:
  assumes "has_shape3 n1 n2 d a" "has_shape3 n1 n2 d b"
  shows "bzip (bzip (bzip (\<lambda>x y. Inr (g x y)))) a b = Inr (map2 (map2 (map2 g)) a b)"
proof (rule bzip_same)
  show "length b = length a" using assms by (simp add: has_shape3_def)
  show "list_all (\<lambda>(x, y). bzip (bzip (\<lambda>x y. Inr (g x y))) x y = Inr (map2 (map2 g) x y)) (zip a b)"
    using assms by (auto simp: list_all_length has_shape3_iff intro!: bzip2)
qed

lemma np_inplace4_same_shape:
  assumes "has_shape4 n1 n2 n3 d a" "has_shape4 n1 n2 n3 d b"
  shows "np_inplace4 g a b = Inr (map2 (map2 (map2 (map2 g))) a b)"
  unfolding np_inplace4_def
proof (rule bzip_same)
  show "length b = length a" using assms by (simp add: has_shape4_def)
  show "list_all (\<lambda>(x, y). bzip (bzip (bzip (\<lambda>x y. Inr (g x y)))) x y = Inr (map2 (map2 (map2 g)) x y)) (zip a b)"
    using assms by (auto simp: list_all_length has_shape4_iff intro!: bzip3)
qed

lemma map2_4_shape:
  assumes "has_shape4 n1 n2 n3 d a" "has_shape4 n1 n2 n3 d b"
  shows "has_shape4 n1 n2 n3 d (map2 (map2 (map2 (map2 g))) a b)"
  using assms by (simp add: has_shape4_iff has_shape3_iff)

lemma map2_4_nth:
  assumes "has_shape4 n1 n2 n3 d a" "has_shape4 n1 n2 n3 d b" "i < n1" "j < n2" "k < n3" "c < d"
  shows "map2 (map2 (map2 (map2 g))) a b ! i ! j ! k ! c = g (a ! i ! j ! k ! c) (b ! i ! j ! k ! c)"
  using assms by (simp add: has_shape4_iff has_shape3_iff)

lemma np_scale4_shape:
  "has_shape4 n1 n2 n3 d a \<Longrightarrow> has_shape4 n1 n2 n3 d (np_scale4 c a)"
  by (simp add: has_shape4_iff has_shape3_iff np_scale4_def)

lemma np_scale4_nth:
  assumes "has_shape4 n1 n2 n3 d a" "i < n1" "j < n2" "k < n3" "c < d"
  shows "np_scale4 x a ! i ! j ! k ! c = x * (a ! i ! j ! k ! c)"
  using assms by (simp add: has_shape4_iff has_shape3_iff np_scale4_def)

lemma edge_surfaces_pair:
  "edge_surfaces E [x, y] H = edge_surfaces_two E (PSeq [x, y]) H"
  by (simp add: edge_surfaces_def py_len_def)

lemma coons_arithmetic:
  assumes "has_shape4 n1 n2 n3 d a1" "has_shape4 n1 n2 n3 d a2"
      and "has_shape4 n1 n2 n3 d a3" "has_shape4 n1 n2 n3 d a4"
      and "np_inplace4 (+) a1 a2 = Inr c1" "np_inplace4 (+) c1 a3 = Inr c2"
      and "np_inplace4 (-) c2 (np_scale4 2 a4) = Inr c3"
  shows "has_shape4 n1 n2 n3 d c3"
    and "\<forall>i<n1. \<forall>j<n2. \<forall>k<n3. \<forall>c<d.
           c3 ! i ! j ! k ! c
             = a1 ! i ! j ! k ! c + a2 ! i ! j ! k ! c + a3 ! i ! j ! k ! c - 2 * a4 ! i ! j ! k ! c"
proof -
  have e1: "c1 = map2 (map2 (map2 (map2 (+)))) a1 a2"
    using assms(5) np_inplace4_same_shape [OF assms(1,2), of "(+)"] by simp
  have s1: "has_shape4 n1 n2 n3 d c1" unfolding e1 by (rule map2_4_shape [OF assms(1,2)])
  have e2: "c2 = map2 (map2 (map2 (map2 (+)))) c1 a3"
    using assms(6) np_inplace4_same_shape [OF s1 assms(3), of "(+)"] by simp
  have s2: "has_shape4 n1 n2 n3 d c2" unfolding e2 by (rule map2_4_shape [OF s1 assms(3)])
  have s4: "has_shape4 n1 n2 n3 d (np_scale4 2 a4)" by (rule np_scale4_shape [OF assms(4)])
  have e3: "c3 = map2 (map2 (map2 (map2 (-)))) c2 (np_scale4 2 a4)"
    using assms(7) np_inplace4_same_shape [OF s2 s4, of "(-)"] by simp
  show "has_shape4 n1 n2 n3 d c3" unfolding e3 by (rule map2_4_shape [OF s2 s4])
  show "\<forall>i<n1. \<forall>j<n2. \<forall>k<n3. \<forall>c<d.
           c3 ! i ! j ! k ! c
             = a1 ! i ! j ! k ! c + a2 ! i ! j ! k ! c + a3 ! i ! j ! k ! c - 2 * a4 ! i ! j ! k ! c"
  proof (intro allI impI)
    fix i j k c assume b: "i < n1" "j < n2" "k < n3" "c < d"
    have "c3 ! i ! j ! k ! c = c2 ! i ! j ! k ! c - np_scale4 2 a4 ! i ! j ! k ! c"
      unfolding e3 by (rule map2_4_nth [OF s2 s4 b])
    also have "c2 ! i ! j ! k ! c = c1 ! i ! j ! k ! c + a3 ! i ! j ! k ! c"
      unfolding e2 by (rule map2_4_nth [OF s1 assms(3) b])
    also have "c1 ! i ! j ! k ! c = a1 ! i ! j ! k ! c + a2 ! i ! j ! k ! c"
      unfolding e1 by (rule map2_4_nth [OF assms(1,2) b])
    also have "np_scale4 2 a4 ! i ! j ! k ! c = 2 * a4 ! i ! j ! k ! c"
      by (rule np_scale4_nth [OF assms(4) b])
    finally show "c3 ! i ! j ! k ! c
             = a1 ! i ! j ! k ! c + a2 ! i ! j ! k ! c + a3 ! i ! j ! k ! c - 2 * a4 ! i ! j ! k ! c" .
  qed
qed

text \<open>
  C4: \<^verbatim>\<open>edge_surfaces\<close> with six boundary surfaces. The hypotheses name the calls that the
  source makes, in its order, and their results: the three ruled volumes \<open>R1\<close>, \<open>R2\<close>,
  \<open>R3\<close> of the opposing pairs (the two-surface construction); the volume \<open>C\<close> that the
  \<^verbatim>\<open>Volume\<close> constructor builds from the eight corner points of \<open>R1\<close>, with the rational
  flag of \<open>R1\<close>; the swaps that bring the volumes to one axis convention, \<open>(0, 2)\<close> and then
  \<open>(1, 2)\<close> for \<open>R1\<close>, \<open>(1, 2)\<close> for \<open>R2\<close> and for \<open>C\<close>; and the six calls of
  \<^verbatim>\<open>Volume.make_splines_identical\<close>, on the pairs \<open>(1, 2)\<close>, \<open>(1, 3)\<close>, \<open>(1, 4)\<close>,
  \<open>(2, 3)\<close>, \<open>(2, 4)\<close>, \<open>(3, 4)\<close>, each call working on what the calls before it have left,
  which give the unified volumes \<open>V1\<close>, \<open>V2\<close>, \<open>V3\<close>, \<open>V4\<close>. What the unification is for
  is that the four lattices have one shape \<open>(n1, n2, n3, d)\<close>. Then the call returns a
  volume with the bases, the dimension and the rational flag of \<open>V1\<close>, whose lattice has
  that shape and is \<open>V1 + V2 + V3 - 2 * V4\<close>, coordinate by coordinate; the store is the
  one that the three two-surface constructions have left.
\<close>

theorem edge_surfaces_coons:
  assumes "edge_surfaces E [x0, x1] H = Inr (R1, H1)"
      and "edge_surfaces E [x2, x3] H1 = Inr (R2, H2)"
      and "edge_surfaces E [x4, x5] H2 = Inr (R3, H3)"
      and "Volume E None None None (Some (volume_corners E R1)) (v_rational R1) = Inr C"
      and "volume_swap E 0 2 R1 = Inr S" and "volume_swap E 1 2 S = Inr W1"
      and "volume_swap E 1 2 R2 = Inr W2"
      and "volume_swap E 1 2 C = Inr W4"
      and "volume_make_splines_identical E W1 W2 = Inr (A1, A2)"
      and "volume_make_splines_identical E A1 R3 = Inr (B1, A3)"
      and "volume_make_splines_identical E B1 W4 = Inr (V1, A4)"
      and "volume_make_splines_identical E A2 A3 = Inr (B2, B3)"
      and "volume_make_splines_identical E B2 A4 = Inr (V2, B4)"
      and "volume_make_splines_identical E B3 B4 = Inr (V3, V4)"
      and "has_shape4 n1 n2 n3 d (v_controlpoints V1)"
      and "has_shape4 n1 n2 n3 d (v_controlpoints V2)"
      and "has_shape4 n1 n2 n3 d (v_controlpoints V3)"
      and "has_shape4 n1 n2 n3 d (v_controlpoints V4)"
  shows "\<exists>v. edge_surfaces E [x0, x1, x2, x3, x4, x5] H = Inr (v, H3)
           \<and> v_bases v = v_bases V1 \<and> v_dimension v = v_dimension V1 \<and> v_rational v = v_rational V1
           \<and> has_shape4 n1 n2 n3 d (v_controlpoints v)
           \<and> (\<forall>i<n1. \<forall>j<n2. \<forall>k<n3. \<forall>c<d.
                 v_controlpoints v ! i ! j ! k ! c
                   = v_controlpoints V1 ! i ! j ! k ! c + v_controlpoints V2 ! i ! j ! k ! c
                     + v_controlpoints V3 ! i ! j ! k ! c - 2 * v_controlpoints V4 ! i ! j ! k ! c)"
proof -
  let ?surfaces = "PSeq [x0, x1, x2, x3, x4, x5]"
  let ?c1 = "map2 (map2 (map2 (map2 (+)))) (v_controlpoints V1) (v_controlpoints V2)"
  let ?c2 = "map2 (map2 (map2 (map2 (+)))) ?c1 (v_controlpoints V3)"
  let ?c3 = "map2 (map2 (map2 (map2 (-)))) ?c2 (np_scale4 2 (v_controlpoints V4))"
  let ?v = "V1\<lparr>v_controlpoints := ?c3\<rparr>"
  have cv: "coons_volumes E ?surfaces H = Inr ((W1, W2, R3, W4), H3)"
    unfolding coons_volumes_def
    by (simp add: py_getitem_def getitem_def assms(1-8) [unfolded edge_surfaces_pair]
        ebind_Inr lift_Inr del: ebind_Inr_iff One_nat_def)
  have un: "unify_four E W1 W2 R3 W4 = Inr (V1, V2, V3, V4)"
    unfolding unify_four_def
    by (simp add: assms(9-14) ebind_Inr lift_Inr del: ebind_Inr_iff)
  have a1: "np_inplace4 (+) (v_controlpoints V1) (v_controlpoints V2) = Inr ?c1"
    by (rule np_inplace4_same_shape [OF assms(15,16)])
  have s1: "has_shape4 n1 n2 n3 d ?c1" by (rule map2_4_shape [OF assms(15,16)])
  have a2: "np_inplace4 (+) ?c1 (v_controlpoints V3) = Inr ?c2"
    by (rule np_inplace4_same_shape [OF s1 assms(17)])
  have s2: "has_shape4 n1 n2 n3 d ?c2" by (rule map2_4_shape [OF s1 assms(17)])
  have s4: "has_shape4 n1 n2 n3 d (np_scale4 2 (v_controlpoints V4))"
    by (rule np_scale4_shape [OF assms(18)])
  have a3: "np_inplace4 (-) ?c2 (np_scale4 2 (v_controlpoints V4)) = Inr ?c3"
    by (rule np_inplace4_same_shape [OF s2 s4])
  have ev: "edge_surfaces E [x0, x1, x2, x3, x4, x5] H = Inr (?v, H3)"
    unfolding edge_surfaces_def
    by (simp add: py_len_def cv un a1 a2 a3 ebind_Inr Let_def del: ebind_Inr_iff)
  have sel: "v_bases ?v = v_bases V1" "v_dimension ?v = v_dimension V1" "v_rational ?v = v_rational V1"
    "v_controlpoints ?v = ?c3" by simp_all
  note ar = coons_arithmetic [OF assms(15-18) a1 a2 a3]
  show ?thesis
    by (intro exI [of _ ?v] conjI; (simp only: sel)?) (rule ev refl ar)+
qed

lemma upt_2: "[0..<2] = [0, 1]"
  by (simp add: upt_rec)

lemma volume_all_fields:
  "(v0 :: volume)\<lparr>v_bases := a, v_dimension := b, v_rational := c, v_controlpoints := d\<rparr>
     = \<lparr>v_bases = a, v_controlpoints = d, v_dimension = b, v_rational = c\<rparr>"
  by (cases v0) simp

lemma ref_ruled:
  assumes "a1 < length H" "a2 < length H"
      and "H ! a1 = patch p00 p10 p01 p11" "H ! a2 = patch q00 q10 q01 q11"
      and "length p00 = 3" "length p10 = 3" "length p01 = 3" "length p11 = 3"
      and "length q00 = 3" "length q10 = 3" "length q01 = 3" "length q11 = 3"
  shows "edge_surfaces_two ref_kernel (PSeq [PSurface a1, PSurface a2]) H =
           Inr (\<lparr>v_bases = [linear_basis, linear_basis, linear_basis],
                 v_controlpoints = [[[p00, q00], [p01, q01]], [[p10, q10], [p11, q11]]],
                 v_dimension = 3, v_rational = False\<rparr>,
                H @ [H ! a1, H ! a2])"
proof -
  obtain v0 where v0: "Volume ref_kernel None None None None False = Inr v0"
    using ref_Volume_default by blast
  have u: "surface_make_splines_identical ref_kernel (H ! a1) (H ! a2) = Inr (H ! a1, H ! a2)"
    using assms by (simp add: ref_identical_patches)
  have sh: "has_shape3 2 2 3 (controlpoints (H ! a1))" "has_shape3 2 2 3 (controlpoints (H ! a2))"
    using assms by (simp_all add: has_shape3_def patch_def)
  have b: "2 \<le> length (bases (H ! a1))" using assms by (simp add: patch_def)
  have h: "(H @ [H ! a1, H ! a2])[length H := H ! a1, Suc (length H) := H ! a2] = H @ [H ! a1, H ! a2]"
    by (simp add: list_update_append)
  show ?thesis
    unfolding edge_surfaces_two_eval [OF assms(1,2) u sh b v0 ref_linear_basis] h volume_all_fields
    using assms(3,4,5) by (simp add: patch_def)
qed

lemmas ref_eval = ref_kernel_def ref_Volume_def ref_corners_def ref_swap_def swap_entries_def
  ref_volume_identical_def ref_num_functions_def linear_basis_def shape3_def Let_def upt_2
  numeral_2_eq_2 numeral_3_eq_3

lemma ref_corner_volume:
  "Volume ref_kernel None None None
     (Some (volume_corners ref_kernel
        \<lparr>v_bases = bs,
         v_controlpoints = [[[p000, p001], [p010, p011]], [[p100, p101], [p110, p111]]],
         v_dimension = n, v_rational = False\<rparr>)) False
   = Inr \<lparr>v_bases = [linear_basis, linear_basis, linear_basis],
          v_controlpoints = [[[p000, p100], [p010, p110]], [[p001, p101], [p011, p111]]],
          v_dimension = length p000, v_rational = False\<rparr>"
  by (simp add: ref_eval)

lemma ref_swap_1_2:
  "volume_swap ref_kernel 1 2
     \<lparr>v_bases = [b1, b2, b3],
      v_controlpoints = [[[p000, p001], [p010, p011]], [[p100, p101], [p110, p111]]],
      v_dimension = n, v_rational = r\<rparr>
   = Inr \<lparr>v_bases = [b1, b3, b2],
          v_controlpoints = [[[p000, p010], [p001, p011]], [[p100, p110], [p101, p111]]],
          v_dimension = n, v_rational = r\<rparr>"
  by (simp add: ref_eval)

lemma ref_swap_0_2:
  "volume_swap ref_kernel 0 2
     \<lparr>v_bases = [b1, b2, b3],
      v_controlpoints = [[[p000, p001], [p010, p011]], [[p100, p101], [p110, p111]]],
      v_dimension = n, v_rational = r\<rparr>
   = Inr \<lparr>v_bases = [b3, b2, b1],
          v_controlpoints = [[[p000, p100], [p010, p110]], [[p001, p101], [p011, p111]]],
          v_dimension = n, v_rational = r\<rparr>"
  by (simp add: ref_eval)

lemma ref_unify_boxes:
  "volume_make_splines_identical ref_kernel (trilinear (box_lattice a b c)) (trilinear (box_lattice a' b' c'))
     = Inr (trilinear (box_lattice a b c), trilinear (box_lattice a' b' c'))"
  by (simp add: ref_kernel_def ref_volume_identical_def trilinear_def box_lattice_def shape3_def)

lemma box_shape: "has_shape4 2 2 2 3 (v_controlpoints (trilinear (box_lattice a b c)))"
  by (simp add: has_shape4_def has_shape3_def trilinear_def box_lattice_def)

lemma lattice_eqI:
  assumes "has_shape4 n1 n2 n3 d a" "has_shape4 n1 n2 n3 d b"
      and "\<forall>i<n1. \<forall>j<n2. \<forall>k<n3. \<forall>c<d. a ! i ! j ! k ! c = b ! i ! j ! k ! c"
  shows "a = b"
  using assms by (auto simp: has_shape4_iff has_shape3_iff intro!: nth_equalityI)

lemma skew_ruled_u:
  "edge_surfaces ref_kernel [PSurface 0, PSurface 1] skew_faces =
     Inr (\<lparr>v_bases = [linear_basis, linear_basis, linear_basis],
           v_controlpoints = [[[[0, 0, 0], [2, 0, 0]], [[0, 0, 1], [2, 0, 1]]],
                              [[[0, 1, 0], [2, 1, 0]], [[0, 1, 1], [2, 1, 1]]]],
           v_dimension = 3, v_rational = False\<rparr>, skew_heap1)"
  unfolding skew_heap1_def edge_surfaces_pair
  by (rule ref_ruled) (simp_all add: skew_faces_def)

lemma skew_ruled_v:
  "edge_surfaces ref_kernel [PSurface 2, PSurface 3] skew_heap1 =
     Inr (\<lparr>v_bases = [linear_basis, linear_basis, linear_basis],
           v_controlpoints = [[[[0, 0, 0], [0, 3, 0]], [[0, 0, 1], [0, 3, 1]]],
                              [[[1, 0, 0], [1, 3, 0]], [[1, 0, 1], [1, 3, 1]]]],
           v_dimension = 3, v_rational = False\<rparr>, skew_heap2)"
  unfolding skew_heap2_def edge_surfaces_pair
  by (rule ref_ruled) (simp_all add: skew_heap1_def skew_faces_def)

lemma skew_ruled_w:
  "edge_surfaces ref_kernel [PSurface 4, PSurface 5] skew_heap2 =
     Inr (trilinear (box_lattice 1 1 5), skew_heap3)"
  unfolding skew_heap3_def edge_surfaces_pair trilinear_def box_lattice_def
  by (rule ref_ruled) (simp_all add: skew_heap2_def skew_heap1_def skew_faces_def)

lemma skew_corner_volume:
  "Volume ref_kernel None None None
     (Some (volume_corners ref_kernel
        \<lparr>v_bases = [linear_basis, linear_basis, linear_basis],
         v_controlpoints = [[[[0, 0, 0], [2, 0, 0]], [[0, 0, 1], [2, 0, 1]]],
                            [[[0, 1, 0], [2, 1, 0]], [[0, 1, 1], [2, 1, 1]]]],
         v_dimension = 3, v_rational = False\<rparr>))
     (v_rational \<lparr>v_bases = [linear_basis, linear_basis, linear_basis],
         v_controlpoints = [[[[0, 0, 0], [2, 0, 0]], [[0, 0, 1], [2, 0, 1]]],
                            [[[0, 1, 0], [2, 1, 0]], [[0, 1, 1], [2, 1, 1]]]],
         v_dimension = 3, v_rational = False\<rparr>)
   = Inr \<lparr>v_bases = [linear_basis, linear_basis, linear_basis],
          v_controlpoints = [[[[0, 0, 0], [0, 1, 0]], [[0, 0, 1], [0, 1, 1]]],
                             [[[2, 0, 0], [2, 1, 0]], [[2, 0, 1], [2, 1, 1]]]],
          v_dimension = 3, v_rational = False\<rparr>"
  by (simp add: ref_corner_volume)

lemma skew_swaps:
  "volume_swap ref_kernel 0 2
     \<lparr>v_bases = [linear_basis, linear_basis, linear_basis],
      v_controlpoints = [[[[0, 0, 0], [2, 0, 0]], [[0, 0, 1], [2, 0, 1]]],
                         [[[0, 1, 0], [2, 1, 0]], [[0, 1, 1], [2, 1, 1]]]],
      v_dimension = 3, v_rational = False\<rparr>
   = Inr \<lparr>v_bases = [linear_basis, linear_basis, linear_basis],
          v_controlpoints = [[[[0, 0, 0], [0, 1, 0]], [[0, 0, 1], [0, 1, 1]]],
                             [[[2, 0, 0], [2, 1, 0]], [[2, 0, 1], [2, 1, 1]]]],
          v_dimension = 3, v_rational = False\<rparr>"
  "volume_swap ref_kernel 1 2
     \<lparr>v_bases = [linear_basis, linear_basis, linear_basis],
      v_controlpoints = [[[[0, 0, 0], [0, 1, 0]], [[0, 0, 1], [0, 1, 1]]],
                         [[[2, 0, 0], [2, 1, 0]], [[2, 0, 1], [2, 1, 1]]]],
      v_dimension = 3, v_rational = False\<rparr>
   = Inr (trilinear (box_lattice 2 1 1))"
  "volume_swap ref_kernel 1 2
     \<lparr>v_bases = [linear_basis, linear_basis, linear_basis],
      v_controlpoints = [[[[0, 0, 0], [0, 3, 0]], [[0, 0, 1], [0, 3, 1]]],
                         [[[1, 0, 0], [1, 3, 0]], [[1, 0, 1], [1, 3, 1]]]],
      v_dimension = 3, v_rational = False\<rparr>
   = Inr (trilinear (box_lattice 1 3 1))"
  unfolding trilinear_def box_lattice_def
  by (simp_all only: ref_swap_0_2 ref_swap_1_2)

text \<open>
  Six faces for which the three ruled volumes differ: the face \<open>umax\<close> lies in the plane
  \<open>x = 2\<close>, the face \<open>vmax\<close> in the plane \<open>y = 3\<close>, the face \<open>wmax\<close> in the plane \<open>z = 5\<close>,
  and each is a unit square. After the swaps the ruled volumes are the boxes
  \<open>(2 i, j, k)\<close>, \<open>(i, 3 j, k)\<close> and \<open>(i, j, 5 k)\<close>, the corner volume is the box
  \<open>(2 i, j, k)\<close>, and the blend is \<open>(2 i + i + i - 4 i, j + 3 j + j - 2 j, k + k + 5 k - 2 k)\<close>.
\<close>

theorem edge_surfaces_coons_witness:
  "\<exists>v. edge_surfaces ref_kernel
          [PSurface 0, PSurface 1, PSurface 2, PSurface 3, PSurface 4, PSurface 5] skew_faces
        = Inr (v, skew_heap3)
      \<and> v_bases v = [linear_basis, linear_basis, linear_basis]
      \<and> v_dimension v = 3 \<and> v_rational v = False
      \<and> v_controlpoints v =
          [[[[0, 0, 0], [0, 0, 5]], [[0, 3, 0], [0, 3, 5]]],
           [[[0, 0, 0], [0, 0, 5]], [[0, 3, 0], [0, 3, 5]]]]"
proof -
  let ?V1 = "trilinear (box_lattice 2 1 1)"
  let ?V2 = "trilinear (box_lattice 1 3 1)"
  let ?V3 = "trilinear (box_lattice 1 1 5)"
  from edge_surfaces_coons [OF skew_ruled_u skew_ruled_v skew_ruled_w skew_corner_volume
      skew_swaps(1) skew_swaps(2) skew_swaps(3) skew_swaps(2)
      ref_unify_boxes ref_unify_boxes ref_unify_boxes ref_unify_boxes ref_unify_boxes ref_unify_boxes
      box_shape box_shape box_shape box_shape]
  obtain v where
    ev: "edge_surfaces ref_kernel
          [PSurface 0, PSurface 1, PSurface 2, PSurface 3, PSurface 4, PSurface 5] skew_faces
        = Inr (v, skew_heap3)" and
    bs: "v_bases v = v_bases ?V1" and dm: "v_dimension v = v_dimension ?V1" and
    rt: "v_rational v = v_rational ?V1" and
    sh: "has_shape4 2 2 2 3 (v_controlpoints v)" and
    pt: "\<forall>i<2. \<forall>j<2. \<forall>k<2. \<forall>c<3.
           v_controlpoints v ! i ! j ! k ! c
             = v_controlpoints ?V1 ! i ! j ! k ! c + v_controlpoints ?V2 ! i ! j ! k ! c
               + v_controlpoints ?V3 ! i ! j ! k ! c - 2 * v_controlpoints ?V1 ! i ! j ! k ! c"
    by (elim exE conjE) (rule that; assumption)
  have sh': "has_shape4 2 2 2 3 (v_controlpoints (trilinear (box_lattice 0 3 5)))"
    by (rule box_shape)
  have "\<forall>i<2. \<forall>j<2. \<forall>k<2. \<forall>c<3.
           v_controlpoints v ! i ! j ! k ! c = v_controlpoints (trilinear (box_lattice 0 3 5)) ! i ! j ! k ! c"
  proof (intro allI impI)
    fix i j k c :: nat
    assume b: "i < 2" "j < 2" "k < 2" "c < 3"
    then have "i = 0 \<or> i = 1" "j = 0 \<or> j = 1" "k = 0 \<or> k = 1" "c = 0 \<or> c = 1 \<or> c = 2" by auto
    then show "v_controlpoints v ! i ! j ! k ! c
                 = v_controlpoints (trilinear (box_lattice 0 3 5)) ! i ! j ! k ! c"
      unfolding pt [rule_format, OF b]
      by (elim disjE) (simp_all add: trilinear_def box_lattice_def)
  qed
  from lattice_eqI [OF sh sh' this]
  have cp: "v_controlpoints v =
          [[[[0, 0, 0], [0, 0, 5]], [[0, 3, 0], [0, 3, 5]]],
           [[[0, 0, 0], [0, 0, 5]], [[0, 3, 0], [0, 3, 5]]]]"
    by (simp add: trilinear_def box_lattice_def)
  show ?thesis
    using ev bs dm rt cp by (intro exI [of _ v]) (simp add: trilinear_def)
qed

subsection \<open>The number of surfaces of edge_surfaces\<close>






















subsection \<open>extrude and the surface of the caller\<close>

text \<open>
  C1: the claim fails for \<^verbatim>\<open>extrude\<close>, which works on the caller's surface and never
  clones it. Whenever \<^verbatim>\<open>extrude(surf, h)\<close> returns, no object has been added to the store,
  and the caller's surface holds what the calls \<^verbatim>\<open>surf.set_dimension(3)\<close>,
  \<^verbatim>\<open>surf += (0, 0, h)\<close> and \<^verbatim>\<open>surf -= (0, 0, h)\<close> have made of it, in this order: a planar
  surface has become a surface in three dimensions. The volume is built from the control
  points read after the first and after the second of these calls.
\<close>

theorem extrude_changes_its_input:
  assumes "extrude E surf h H = Inr (v, H')"
  shows "\<exists>s1 s2 s3 b2.
           surf < length H
         \<and> surface_set_dimension E 3 (H ! surf) = Inr s1
         \<and> surface_iadd E [0, 0, h] s1 = Inr s2
         \<and> surface_isub E [0, 0, h] s2 = Inr s3
         \<and> BSplineBasis E (Some 2) None None = Inr b2
         \<and> Volume E (Some (bases s3 ! 0)) (Some (bases s3 ! 1)) (Some b2)
              (Some (surface_iter E s1 @ surface_iter E s2)) (rational s3) = Inr v
         \<and> H' = H[surf := s3]"
  using assms
  by (auto simp: extrude_def mutate_Inr_iff deref_Inr_iff getitem_Inr_iff lift_Inr_iff Let_def)

lemma square_extrusion:
  "extrude ref_kernel 0 1 square_heap =
     Inr (\<lparr>v_bases = [linear_basis, linear_basis, linear_basis],
           v_controlpoints = [[[[0, 0, 0], [0, 0, 1]], [[0, 1, 0], [0, 1, 1]]],
                              [[[1, 0, 0], [1, 0, 1]], [[1, 1, 0], [1, 1, 1]]]],
           v_dimension = 3, v_rational = False\<rparr>,
          [patch [0, 0, 0] [1, 0, 0] [0, 1, 0] [1, 1, 0]])"
  by (simp add: extrude_def mutate_def deref_def getitem_def lift_def ebind_def Let_def
      square_heap_def patch_def ref_kernel_def ref_set_dimension_def ref_point_set_dimension_def
      ref_iter_def ref_translate_def ref_BSplineBasis_def ref_Volume_def ref_num_functions_def
      linear_basis_def upt_rec numeral_2_eq_2 numeral_3_eq_3
      del: ebind_Inr_iff)

text \<open>
  The unit square of the plane, with two coordinates per control point: after
  \<^verbatim>\<open>extrude(surf, 1)\<close> the caller's surface has the dimension 3 and three coordinates per
  control point.
\<close>

theorem extrude_changes_its_input_witness:
  "\<exists>v H'. extrude ref_kernel 0 1 square_heap = Inr (v, H')
     \<and> dimension (square_heap ! 0) = 2
     \<and> controlpoints (square_heap ! 0) = [[[0, 0], [0, 1]], [[1, 0], [1, 1]]]
     \<and> dimension (H' ! 0) = 3
     \<and> controlpoints (H' ! 0) = [[[0, 0, 0], [0, 1, 0]], [[1, 0, 0], [1, 1, 0]]]
     \<and> length H' = length square_heap"
proof -
  note ev = square_extrusion
  from extrude_changes_its_input [OF ev] obtain s3 where
    H': "[patch [0, 0, 0] [1, 0, 0] [0, 1, 0] [1, 1, 0]] = square_heap[0 := s3]"
    by (elim exE conjE) (rule that; assumption)
  have len: "length [patch [0, 0, 0] [1, 0, 0] [0, 1, 0] [1, 1, 0]] = length square_heap"
    unfolding H' by simp
  have "dimension (square_heap ! 0) = 2"
    "controlpoints (square_heap ! 0) = [[[0, 0], [0, 1]], [[1, 0], [1, 1]]]"
    "dimension ([patch [0, 0, 0] [1, 0, 0] [0, 1, 0] [1, 1, 0]] ! 0) = 3"
    "controlpoints ([patch [0, 0, 0] [1, 0, 0] [0, 1, 0] [1, 1, 0]] ! 0)
       = [[[0, 0, 0], [0, 1, 0]], [[1, 0, 0], [1, 1, 0]]]"
    by (simp_all add: square_heap_def patch_def)
  with ev len show ?thesis by blast
qed

subsection \<open>loft with two surfaces\<close>

lemma loft_clone_two:
  assumes "a1 < length H" "a2 < length H"
      and "surface_set_dimension E 3 (H ! a1) = Inr s1"
      and "surface_set_dimension E 3 (H ! a2) = Inr s2"
  shows "loft_clone E [a1, a2] H = Inr ([length H, Suc (length H)], H @ [s1, s2])"
  using assms
  by (simp add: clone_def mutate_def deref_def lift_def ebind_def nth_append list_update_append
      del: ebind_Inr_iff)

text \<open>
  C2: the claim fails. With two surfaces \<^verbatim>\<open>loft\<close> does not call \<^verbatim>\<open>edge_surfaces\<close>: it
  clones the two surfaces, promotes the clones to three dimensions and returns what
  \<^verbatim>\<open>SurfaceFactory.edge_curves\<close>, the construction of a surface between curves, returns
  for the list of the two clones, or fails with its error. The outcome is that of this one
  call of the kernel: no \<^verbatim>\<open>Surface.make_splines_identical\<close>, no \<^verbatim>\<open>BSplineBasis(2)\<close> and
  no \<^verbatim>\<open>Volume\<close> of two layers are involved.
\<close>

theorem loft_two_surfaces:
  assumes "a1 < length H" and "a2 < length H"
      and "surface_set_dimension E 3 (H ! a1) = Inr s1"
      and "surface_set_dimension E 3 (H ! a2) = Inr s2"
  shows "loft E [a1, a2] H =
           (case SurfaceFactory_edge_curves E [s1, s2] of
              Inl m \<Rightarrow> Inl (KernelError m)
            | Inr g \<Rightarrow> Inr (g, H @ [s1, s2]))"
  unfolding loft_def loft_clone_two [OF assms]
  by (simp add: deref_def lift_def ebind_def nth_append split: sum.splits del: ebind_Inr_iff)

text \<open>
  Two opposite faces of the unit cube: \<^verbatim>\<open>loft\<close> ends with the outcome of
  \<^verbatim>\<open>SurfaceFactory.edge_curves\<close>, which the instance does not define on surfaces, whereas
  \<^verbatim>\<open>edge_surfaces\<close> returns the ruled volume between the two faces.
\<close>

theorem loft_two_surfaces_witness:
  "loft ref_kernel [0, 1] cube_faces =
     (case SurfaceFactory_edge_curves ref_kernel [cube_faces ! 0, cube_faces ! 1] of
        Inl m \<Rightarrow> Inl (KernelError m)
      | Inr g \<Rightarrow> Inr (g, cube_faces @ [cube_faces ! 0, cube_faces ! 1]))
   \<and> loft ref_kernel [0, 1] cube_faces = Inl (KernelError ''edge_curves: not a curve'')
   \<and> edge_surfaces ref_kernel [PSurface 0, PSurface 1] cube_faces =
       Inr (\<lparr>v_bases = [linear_basis, linear_basis, linear_basis],
             v_controlpoints = [[[[0, 0, 0], [1, 0, 0]], [[0, 0, 1], [1, 0, 1]]],
                                [[[0, 1, 0], [1, 1, 0]], [[0, 1, 1], [1, 1, 1]]]],
             v_dimension = 3, v_rational = False\<rparr>,
            cube_faces @ [cube_faces ! 0, cube_faces ! 1])"
proof -
  have l: "0 < length cube_faces" "1 < length cube_faces" by (simp_all add: cube_faces_def)
  have d: "surface_set_dimension ref_kernel 3 (cube_faces ! 0) = Inr (cube_faces ! 0)"
    "surface_set_dimension ref_kernel 3 (cube_faces ! 1) = Inr (cube_faces ! 1)"
    by (simp_all add: ref_kernel_def ref_set_dimension_def ref_point_set_dimension_def
        cube_faces_def patch_def)
  note t = loft_two_surfaces [OF l d]
  have e: "loft ref_kernel [0, 1] cube_faces = Inl (KernelError ''edge_curves: not a curve'')"
    unfolding t by (simp add: ref_kernel_def)
  have r: "edge_surfaces ref_kernel [PSurface 0, PSurface 1] cube_faces =
       Inr (\<lparr>v_bases = [linear_basis, linear_basis, linear_basis],
             v_controlpoints = [[[[0, 0, 0], [1, 0, 0]], [[0, 0, 1], [1, 0, 1]]],
                                [[[0, 1, 0], [1, 1, 0]], [[0, 1, 1], [1, 1, 1]]]],
             v_dimension = 3, v_rational = False\<rparr>,
            cube_faces @ [cube_faces ! 0, cube_faces ! 1])"
    unfolding edge_surfaces_pair
    by (rule ref_ruled) (simp_all add: cube_faces_def)
  show ?thesis by (intro conjI) (rule t e r)+
qed

end
